theory Spec2Isabelle
  imports Complex_Main
begin

section \<open>Conventions of the embedding\<close>

text \<open>
  The repository is Python. Its numbers are binary floating-point values; the embedding
  reads them as real numbers (type \<^typ>\<open>real\<close>), so every theorem below is a statement
  about the formulas of the code in exact arithmetic: rounding, overflow and NaN are not
  modelled. What the code raises is an explicit value: every function that can raise
  returns \<open>py_error + 'a\<close>, with \<open>Inl\<close> the exception. A division whose divisor can be
  zero is written with \<open>py_div\<close>, a logarithm with \<open>py_log\<close>, a square root with
  \<open>py_sqrt\<close>, so that Python's \<open>ZeroDivisionError\<close> and \<open>ValueError\<close> are branches of
  the model. Divisions by a non-zero literal are written with HOL's division.
\<close>

datatype py_error =
  ValueError string
  | ZeroDivisionError
  | IndexError
  | KeyError
  | TypeError
  | UnboundLocalError

definition ebind :: "py_error + 'a \<Rightarrow> ('a \<Rightarrow> py_error + 'b) \<Rightarrow> py_error + 'b" where
  \<comment> \<open>sequencing: an exception raised by the first computation leaves the second undone\<close>
  "ebind m f = (case m of Inl e \<Rightarrow> Inl e | Inr x \<Rightarrow> f x)"

definition py_div :: "real \<Rightarrow> real \<Rightarrow> py_error + real" where
  "py_div a b = (if b = 0 then Inl ZeroDivisionError else Inr (a / b))"

definition py_log :: "real \<Rightarrow> py_error + real" where
  \<comment> \<open>\<open>math.log\<close>: a math domain error outside the positive numbers.\<close>
  "py_log x = (if x \<le> 0 then Inl (ValueError ''math domain error'') else Inr (ln x))"

definition py_sqrt :: "real \<Rightarrow> py_error + real" where
  \<comment> \<open>\<open>math.sqrt\<close>: a math domain error on a negative number.\<close>
  "py_sqrt x = (if x < 0 then Inl (ValueError ''math domain error'') else Inr (sqrt x))"

definition py_pow :: "real \<Rightarrow> real \<Rightarrow> py_error + real" where
  \<comment> \<open>\<open>x ** y\<close> for a fractional exponent \<open>y > 0\<close>. On a negative base Python returns a
      complex number (numpy: nan), which the comparisons and \<open>math.sqrt\<close> of the callers
      reject with a \<open>TypeError\<close>; the model stops at the power with that error, so what
      is proved of a call that returns is proved of non-negative bases only.\<close>
  "py_pow x y = (if x < 0 then Inl TypeError else Inr (x powr y))"

section \<open>uav\_parameters.py: LogScaledParameter\<close>

text \<open>
  The object state of \<open>LogScaledParameter\<close>. The field \<open>percent\<close> is the private
  attribute \<open>_percent\<close>; \<open>lsp_name\<close> is the attribute \<open>name\<close>, renamed because the
  other classes have a \<open>name\<close> as well.
\<close>

record LogScaledParameter =
  lsp_name :: string
  unit :: string
  min_val :: real
  max_val :: real
  percent :: real

definition set_percent :: "LogScaledParameter \<Rightarrow> real \<Rightarrow> py_error + LogScaledParameter" where
  \<comment> \<open>the setter of the property \<open>percent\<close>\<close>
  "set_percent p new_percent =
     (if \<not> (0 \<le> new_percent \<and> new_percent \<le> 100)
      then Inl (ValueError ''Percentage must be between 0 and 100.'')
      else Inr (p\<lparr>percent := new_percent\<rparr>))"

definition LogScaledParameter_init ::
  "string \<Rightarrow> string \<Rightarrow> real \<Rightarrow> real \<Rightarrow> py_error + LogScaledParameter" where
  \<comment> \<open>\<open>__init__\<close>; the arguments are numbers by their type, so the \<open>TypeError\<close> branch
      of the source cannot be taken\<close>
  "LogScaledParameter_init nm un mn mx =
     (if mn \<le> 0 \<or> mx \<le> 0
      then Inl (ValueError ''Minimum and maximum values must be positive for log scaling.'')
      else if mn > mx
      then Inl (ValueError ''Minimum value must not be greater than maximum value.'')
      else set_percent
             \<lparr>lsp_name = nm, unit = un, min_val = mn, max_val = mx, percent = 0\<rparr> 50)"

definition get_value :: "LogScaledParameter \<Rightarrow> py_error + real" where
  \<comment> \<open>the getter of the property \<open>value\<close>\<close>
  "get_value p =
     ebind (py_log (min_val p)) (\<lambda>log_min.
     ebind (py_log (max_val p)) (\<lambda>log_max.
       Inr (exp (log_min + (percent p / 100) * (log_max - log_min)))))"

definition set_value :: "LogScaledParameter \<Rightarrow> real \<Rightarrow> py_error + LogScaledParameter" where
  \<comment> \<open>the setter of the property \<open>value\<close>\<close>
  "set_value p new_val =
     (if \<not> (min_val p \<le> new_val \<and> new_val \<le> max_val p)
      then Inl (ValueError ''Value is outside the allowed range'')
      else
        ebind (py_log (min_val p)) (\<lambda>log_min.
        ebind (py_log (max_val p)) (\<lambda>log_max.
        ebind (py_log new_val) (\<lambda>log_new_val.
        ebind (py_div (100 * (log_new_val - log_min)) (log_max - log_min)) (\<lambda>q.
          Inr (p\<lparr>percent := q\<rparr>))))))"

definition score :: "LogScaledParameter \<Rightarrow> real \<Rightarrow> py_error + real" where
  "score p actual_value =
     (let target_min = min_val p; target_max = max_val p in
      if target_min = target_max then
        (if actual_value \<le> 0 \<or> target_min \<le> 0 then Inr 0
         else py_div (min actual_value target_min) (max actual_value target_min))
      else if actual_value < target_min then py_div actual_value target_min
      else if actual_value > target_max then py_div target_max actual_value
      else
        let center_value = (target_min + target_max) / 2;
            max_distance_from_center = (target_max - target_min) / 2
        in if max_distance_from_center \<le> 0 then Inr 1
           else
             ebind (py_div \<bar>actual_value - center_value\<bar> max_distance_from_center)
               (\<lambda>q. Inr (max 0 (1 - q))))"

text \<open>
  \<open>FixedWingParameters\<close>: the five ranged parameters of a mission (the display name of
  the container is not modelled).
\<close>

record FixedWingParameters =
  takeoff_weight :: LogScaledParameter
  cruise_speed :: LogScaledParameter
  endurance :: LogScaledParameter
  wingspan :: LogScaledParameter
  payload_capacity :: LogScaledParameter

section \<open>lipo.py: Battery\<close>

record Battery =
  model_number :: string
  num_batteries :: int
  bat_weight_kg :: real
  c_rating :: real
  energy_wh :: real
  voltage :: real
  capacity_ah :: real
  max_power_w :: real
  total_energy_j :: real

definition Battery_init :: "real \<Rightarrow> real \<Rightarrow> real \<Rightarrow> real \<Rightarrow> string \<Rightarrow> int \<Rightarrow> Battery" where
  \<comment> \<open>\<open>Battery.__init__(weight_kg, c_rating, energy_wh, voltage, model_number, num_batteries)\<close>;
      the attribute \<open>weight_kg\<close> is the field \<open>bat_weight_kg\<close>\<close>
  "Battery_init w c e v m n =
     (let weight = w * of_int n;
          energy = e * of_int n
      in \<lparr>model_number = m, num_batteries = n, bat_weight_kg = weight, c_rating = c,
          energy_wh = energy, voltage = v,
          capacity_ah = (if v > 0 then energy / v else 0),
          max_power_w = energy * c,
          total_energy_j = energy * 3600\<rparr>)"

definition check_power_output :: "Battery \<Rightarrow> real \<Rightarrow> py_error + unit" where
  "check_power_output b required_power_w =
     (if max_power_w b < required_power_w * 1.2
      then Inl (ValueError ''Battery cannot supply peak power.'')
      else Inr ())"

section \<open>edf\_speed.py\<close>

definition np_clip :: "real \<Rightarrow> real \<Rightarrow> real \<Rightarrow> real" where
  \<comment> \<open>\<open>np.clip(a, lo, hi)\<close> is \<open>minimum(maximum(a, lo), hi)\<close>\<close>
  "np_clip a lo hi = min (max a lo) hi"

definition estimate_modified_cruise_speed :: "real \<Rightarrow> FixedWingParameters \<Rightarrow> real" where
  "estimate_modified_cruise_speed pw params =
     (let EMPIRICAL_A = 0.19815;
          EMPIRICAL_B = 0.6246;
          clipped_power_w = np_clip pw 200 20000;
          base_speed_kts = EMPIRICAL_A * (clipped_power_w powr EMPIRICAL_B);
          size_penalty_factor = 1 - 0.10 * log 10 (max 1 (clipped_power_w / 1000));
          MIN_SPEED_FACTOR = 0.35;
          endurance_percent = percent (endurance params);
          speed_factor = 1 - (endurance_percent / 100) * (1 - MIN_SPEED_FACTOR)
      in base_speed_kts * speed_factor * size_penalty_factor)"

section \<open>edf\_config.py: EDF and Aircraft\<close>

text \<open>
  The class \<open>EDF\<close>; its attribute \<open>weight_kg\<close> is the field \<open>edf_weight_kg\<close>. The
  display name, a formatted string, is not modelled.
\<close>

record EDF =
  power_w :: real
  static_thrust_n :: real
  edf_weight_kg :: real
  diameter_m :: real
  design_speed_mps :: real

definition EDF_init :: "real \<Rightarrow> real \<Rightarrow> real \<Rightarrow> real \<Rightarrow> EDF" where
  "EDF_init pw thrust weight diameter =
     \<lparr>power_w = pw, static_thrust_n = thrust, edf_weight_kg = weight,
      diameter_m = diameter, design_speed_mps = 25 + pw / 150\<rparr>"

definition from_power :: "real \<Rightarrow> py_error + EDF" where
  "from_power pw =
     ebind (py_pow pw 0.75) (\<lambda>p75.
     ebind (py_pow pw 0.88) (\<lambda>p88.
     ebind (py_pow pw 0.44) (\<lambda>p44.
       let weight_kg = 0.05 + 0.020 * p75;
           static_thrust = 0.7 * p88;
           diameter = 0.03 * p44
       in Inr (EDF_init pw static_thrust weight_kg diameter))))"

definition get_propulsive_efficiency :: "EDF \<Rightarrow> real \<Rightarrow> py_error + real" where
  "get_propulsive_efficiency e tas_mps =
     ebind (py_div tas_mps (design_speed_mps e)) (\<lambda>speed_ratio.
       Inr (max 0.1 (0.70 * exp (- ((speed_ratio - 1)\<^sup>2) / 0.8))))"

text \<open>
  The class \<open>Aircraft\<close>. \<open>__init__\<close> assigns the attributes one after the other and
  calls the method \<open>calculate_rate_of_climb\<close> before the last two are assigned; the
  model passes it the record with these two still at \<open>0\<close>, and the method does not read
  them.
\<close>

record Aircraft =
  edf :: EDF
  battery :: Battery
  params :: FixedWingParameters
  airframe_weight_kg :: real
  payload_weight_kg :: real
  mtow_kg :: real
  weight_n :: real
  thrust_to_weight_ratio :: real
  ld_ratio :: real
  cruise_ias_kts :: real
  cruise_ias_mps :: real
  wing_area_m2 :: real
  stall_speed_ias_mps :: real
  vr_ias_mps :: real
  vy_ias_mps :: real
  best_glide_ias_mps :: real
  rate_of_climb_fpm :: real
  cruise_power_percent :: real

definition calculate_rate_of_climb :: "Aircraft \<Rightarrow> py_error + real" where
  \<comment> \<open>the diagnostic printing of the zero case has no effect on the result\<close>
  "calculate_rate_of_climb ac =
     ebind (get_propulsive_efficiency (edf ac) (vy_ias_mps ac)) (\<lambda>eff.
     let power_available_climb = power_w (edf ac) * eff in
     ebind (py_div (weight_n ac) (ld_ratio ac)) (\<lambda>d_min_n.
     ebind (if best_glide_ias_mps ac > 0
            then py_div (vy_ias_mps ac) (best_glide_ias_mps ac) else Inr 1) (\<lambda>v_ratio.
     ebind (py_div 1 v_ratio) (\<lambda>inv_v_ratio.
     let drag_at_vy = d_min_n * 0.5 * (v_ratio\<^sup>2 + inv_v_ratio\<^sup>2);
         power_required_climb = drag_at_vy * vy_ias_mps ac;
         excess_power_watts = power_available_climb - power_required_climb
     in ebind (py_div excess_power_watts (weight_n ac)) (\<lambda>q.
          Inr (max 0 (q * 196.85)))))))"

definition Aircraft_init :: "EDF \<Rightarrow> Battery \<Rightarrow> FixedWingParameters \<Rightarrow> py_error + Aircraft" where
  "Aircraft_init e b ps =
     ebind (check_power_output b (power_w e)) (\<lambda>_.
     let power_system_weight = edf_weight_kg e + bat_weight_kg b;
         airframe_to_power_system_ratio = 0.8;
         airframe = 0.4 + (power_system_weight * airframe_to_power_system_ratio);
         empty_weight_kg = edf_weight_kg e + bat_weight_kg b + airframe;
         payload = 0.20 * (power_w e / 100);
         mtow = empty_weight_kg + payload;
         wn = mtow * 9.80665
     in
     ebind (py_div (static_thrust_n e) wn) (\<lambda>twr.
     let ld = 7.0 + (percent (endurance ps) / 100) * 5.0;
         kts = estimate_modified_cruise_speed (power_w e) ps;
         mps = kts * 0.514444
     in
     ebind (py_div (2 * wn) (1.225 * mps\<^sup>2 * 0.4)) (\<lambda>wing_area.
     ebind (py_div (2 * wn) (1.225 * wing_area * 1.5)) (\<lambda>q.
     ebind (py_sqrt q) (\<lambda>stall.
     let ac = \<lparr>edf = e, battery = b, params = ps,
               airframe_weight_kg = airframe, payload_weight_kg = payload,
               mtow_kg = mtow, weight_n = wn, thrust_to_weight_ratio = twr,
               ld_ratio = ld, cruise_ias_kts = kts, cruise_ias_mps = mps,
               wing_area_m2 = wing_area, stall_speed_ias_mps = stall,
               vr_ias_mps = stall * 1.10, vy_ias_mps = stall * 1.20,
               best_glide_ias_mps = stall * 1.31,
               rate_of_climb_fpm = 0, cruise_power_percent = 0\<rparr>
     in
     ebind (calculate_rate_of_climb ac) (\<lambda>roc.
     ebind (py_div wn ld) (\<lambda>thrust_req.
     let power_required_aero_cruise = thrust_req * mps in
     ebind (get_propulsive_efficiency e mps) (\<lambda>eff.
     ebind (py_div power_required_aero_cruise eff) (\<lambda>power_required_elec_cruise.
     ebind (py_div power_required_elec_cruise (power_w e)) (\<lambda>frac.
       Inr (ac\<lparr>rate_of_climb_fpm := roc,
               cruise_power_percent := frac * 100\<rparr>)))))))))))"

text \<open>
  \<open>design_from_mission\<close>. The dictionary \<open>rules\<close> is a map from keys to numbers. The
  loop \<open>for i in range(15)\<close> is the recursion \<open>design_loop\<close> over the list of the
  indices still to run; its state is the local variables \<open>mtow_guess_kg\<close> and
  \<open>temp_aircraft\<close> (\<open>None\<close> while unassigned). Where the source returns
  \<open>temp_aircraft\<close>, \<open>design_loop\<close> returns the locals \<open>i\<close>, \<open>mtow_guess_kg\<close> and
  \<open>temp_aircraft\<close> as they are at that return statement; so does
  \<open>design_from_mission_locals\<close>, the body of the method, and \<open>design_from_mission\<close>
  returns the aircraft of that triple. The index given to \<open>design_loop\<close> at the start
  stands for the unassigned \<open>i\<close> and is never returned, the range not being empty.
\<close>

definition py_getitem :: "(string \<rightharpoonup> real) \<Rightarrow> string \<Rightarrow> py_error + real" where
  "py_getitem d k = (case d k of None \<Rightarrow> Inl KeyError | Some v \<Rightarrow> Inr v)"

fun design_loop ::
  "nat list \<Rightarrow> nat \<Rightarrow> FixedWingParameters \<Rightarrow> (string \<rightharpoonup> real) \<Rightarrow> Battery \<Rightarrow> real \<Rightarrow> real \<Rightarrow>
   real \<Rightarrow> Aircraft option \<Rightarrow> py_error + (nat \<times> real \<times> Aircraft)" where
  "design_loop [] i ps rules b cruise_mps propulsive_eff_at_cruise mtow_guess_kg temp_aircraft =
     (case temp_aircraft of
        None \<Rightarrow> Inl UnboundLocalError
      | Some ac \<Rightarrow> Inr (i, mtow_guess_kg, ac))"
| "design_loop (j # js) i ps rules b cruise_mps propulsive_eff_at_cruise mtow_guess_kg temp_aircraft =
     (let ld = 7.0 + (percent (endurance ps) / 100) * 5.0 in
      ebind (py_div (mtow_guess_kg * 9.80665) ld) (\<lambda>q.
      let power_req_aero = q * cruise_mps in
      ebind (py_div power_req_aero propulsive_eff_at_cruise) (\<lambda>power_req_elec.
      ebind (py_getitem rules ''cruise_power_target'') (\<lambda>target_cruise_power_ratio.
      ebind (py_div power_req_elec (target_cruise_power_ratio / 100)) (\<lambda>required_motor_power_w.
      ebind (from_power required_motor_power_w) (\<lambda>e.
      ebind (Aircraft_init e b ps) (\<lambda>ac.
      let new_mtow_kg = mtow_kg ac in
      ebind (py_div \<bar>new_mtow_kg - mtow_guess_kg\<bar> mtow_guess_kg) (\<lambda>rel.
        if rel < 0.01 then Inr (j, mtow_guess_kg, ac)
        else design_loop js j ps rules b cruise_mps propulsive_eff_at_cruise
               (mtow_guess_kg * 0.5 + new_mtow_kg * 0.5) (Some ac)))))))))"

definition design_from_mission_locals ::
  "FixedWingParameters \<Rightarrow> (string \<rightharpoonup> real) \<Rightarrow> real \<Rightarrow> Battery \<Rightarrow>
   py_error + (nat \<times> real \<times> Aircraft)" where
  \<comment> \<open>the body of \<open>design_from_mission\<close>, up to its return statement: the result is the
      triple of the locals \<open>i\<close>, \<open>mtow_guess_kg\<close> and \<open>temp_aircraft\<close> there\<close>
  "design_from_mission_locals ps rules initial_mtow_guess_kg b =
     ebind (py_getitem rules ''cruise_power_target'') (\<lambda>target.
     let representative_notional_power =
           initial_mtow_guess_kg * (if target > 80 then 220 else 150);
         kts = estimate_modified_cruise_speed representative_notional_power ps;
         mps = kts * 0.514444
     in
     ebind (from_power representative_notional_power) (\<lambda>notional_edf.
     ebind (get_propulsive_efficiency notional_edf mps) (\<lambda>propulsive_eff_at_cruise.
       design_loop [0..<15] 0 ps rules b mps propulsive_eff_at_cruise
         initial_mtow_guess_kg None)))"

definition design_from_mission ::
  "FixedWingParameters \<Rightarrow> (string \<rightharpoonup> real) \<Rightarrow> real \<Rightarrow> Battery \<Rightarrow> py_error + Aircraft" where
  "design_from_mission ps rules initial_mtow_guess_kg b =
     ebind (design_from_mission_locals ps rules initial_mtow_guess_kg b)
       (\<lambda>(i, mtow_guess_kg, temp_aircraft). Inr temp_aircraft)"

section \<open>edf\_mission.py: the mission simulation\<close>

definition G :: real where
  "G = 9.80665"

definition RHO_SL_KGM3 :: real where
  "RHO_SL_KGM3 = 1.225"

record FlightPath =
  time_s :: "real list"
  dist_m :: "real list"
  alt_ft :: "real list"
  ias_kts :: "real list"
  battery_pct :: "real list"
  climb_rate_fpm :: real
  cruise_power_pct :: real
  total_time_min :: real
  total_distance_km :: real
  max_altitude_ft :: real

definition FlightPath_init :: FlightPath where
  "FlightPath_init =
     \<lparr>time_s = [0], dist_m = [0], alt_ft = [1], ias_kts = [0], battery_pct = [100],
      climb_rate_fpm = 0, cruise_power_pct = 0, total_time_min = 0,
      total_distance_km = 0, max_altitude_ft = 0\<rparr>"

definition py_last :: "real list \<Rightarrow> py_error + real" where
  \<comment> \<open>\<open>xs[-1]\<close>\<close>
  "py_last xs = (if xs = [] then Inl IndexError else Inr (last xs))"

definition record_step ::
  "FlightPath \<Rightarrow> real \<Rightarrow> real \<Rightarrow> real \<Rightarrow> real \<Rightarrow> real \<Rightarrow> py_error + FlightPath" where
  "record_step path dt dist_step alt_step ias battery_drain =
     ebind (py_last (time_s path)) (\<lambda>t.
     ebind (py_last (dist_m path)) (\<lambda>d.
     ebind (py_last (alt_ft path)) (\<lambda>a.
     ebind (py_last (battery_pct path)) (\<lambda>bp.
       Inr (path\<lparr>time_s := time_s path @ [t + dt],
                 dist_m := dist_m path @ [d + dist_step],
                 alt_ft := alt_ft path @ [a + alt_step],
                 ias_kts := ias_kts path @ [ias],
                 battery_pct := battery_pct path @ [bp - battery_drain]\<rparr>)))))"

text \<open>
  \<open>calculate_takeoff_distance\<close> returns a pair of floats, the pair
  \<open>(inf, inf)\<close> when the aircraft cannot take off. The reals have no infinity: the
  result type has the constructor \<open>CannotTakeOff\<close> for that pair and
  \<open>GroundRoll distance_m time_s\<close> for a finite one, and the test
  \<open>takeoff_dist_m == float('inf')\<close> of the caller is the test for \<open>CannotTakeOff\<close>.
\<close>

datatype takeoff_roll = CannotTakeOff | GroundRoll real real

definition calculate_takeoff_distance :: "Aircraft \<Rightarrow> real \<Rightarrow> py_error + takeoff_roll" where
  "calculate_takeoff_distance aircraft mu =
     (let wn = weight_n aircraft;
          thrust = static_thrust_n (edf aircraft);
          v_r_mps = vr_ias_mps aircraft;
          avg_velocity = v_r_mps * 0.7
      in
      ebind (py_div (wing_area_m2 aircraft) (ld_ratio aircraft)) (\<lambda>area_over_ld.
      let drag_at_70_percent_vr = 0.5 * RHO_SL_KGM3 * (avg_velocity\<^sup>2) * area_over_ld;
          rolling_friction = mu * wn;
          net_force = thrust - drag_at_70_percent_vr - rolling_friction
      in
      if net_force \<le> 0 then Inr CannotTakeOff
      else
        ebind (py_div net_force (mtow_kg aircraft)) (\<lambda>acceleration.
        ebind (py_div (v_r_mps\<^sup>2) (2 * acceleration)) (\<lambda>distance_m.
        ebind (py_div v_r_mps acceleration) (\<lambda>time.
          Inr (GroundRoll distance_m time))))))"

definition isa_density :: "real \<Rightarrow> py_error + real" where
  \<comment> \<open>the three lines of the ISA model (\<open>temp_k\<close>, \<open>pressure_pa\<close>, \<open>rho\<close>), which the
      source repeats in the climb, the cruise and the descent\<close>
  "isa_density alt_m =
     (let temp_k = 288.15 - 0.0065 * alt_m in
      ebind (py_pow (1 - 0.0065 * alt_m / 288.15) 5.256) (\<lambda>pw.
      let pressure_pa = 101325 * pw in
      py_div pressure_pa (287.05 * temp_k)))"

text \<open>
  Phase 2, the climb. \<open>climb_continue\<close> is the condition of the \<open>while\<close> loop,
  \<open>climb_step\<close> its body (\<open>None\<close> is the \<open>break\<close>), \<open>climb_loop\<close> the loop. The
  source computes \<open>math.sqrt(RHO_SL_KGM3 / rho)\<close> twice in the body; the model
  computes it once.
\<close>

definition climb_continue :: "FlightPath \<Rightarrow> py_error + bool" where
  "climb_continue path =
     ebind (py_last (battery_pct path)) (\<lambda>bp.
       if \<not> bp > 75.0 then Inr False
       else ebind (py_last (alt_ft path)) (\<lambda>alt. Inr (alt < 45000)))"

definition climb_step ::
  "Aircraft \<Rightarrow> real \<Rightarrow> real \<Rightarrow> FlightPath \<Rightarrow> py_error + FlightPath option" where
  "climb_step aircraft wn total_energy path =
     (let climb_ias_mps = vy_ias_mps aircraft;
          alt_step_ft = 250.0
      in
      ebind (py_last (alt_ft path)) (\<lambda>alt.
      let current_alt_m = alt * 0.3048 in
      ebind (isa_density current_alt_m) (\<lambda>rho.
      ebind (py_div RHO_SL_KGM3 rho) (\<lambda>ratio.
      ebind (py_sqrt ratio) (\<lambda>root.
      let tas_mps = climb_ias_mps * root in
      ebind (py_div wn (ld_ratio aircraft)) (\<lambda>d_min_n.
      ebind (py_div tas_mps (best_glide_ias_mps aircraft * root)) (\<lambda>v_ratio.
      ebind (py_div 1 v_ratio) (\<lambda>inv_v_ratio.
      let drag_at_vy = d_min_n * 0.5 * (v_ratio\<^sup>2 + inv_v_ratio\<^sup>2);
          power_required_drag = drag_at_vy * tas_mps;
          density_ratio = rho / RHO_SL_KGM3;
          power_available_elec = power_w (edf aircraft) * density_ratio
      in
      ebind (get_propulsive_efficiency (edf aircraft) tas_mps) (\<lambda>eff.
      let power_available_prop = power_available_elec * eff;
          excess_power_w = power_available_prop - power_required_drag
      in
      if excess_power_w \<le> 0 then Inr None
      else
        ebind (py_div excess_power_w wn) (\<lambda>roc_mps.
        let path1 = (if climb_rate_fpm path = 0
                     then path\<lparr>climb_rate_fpm := roc_mps * 196.85\<rparr> else path)
        in
        ebind (py_div (alt_step_ft * 0.3048) roc_mps) (\<lambda>time_to_climb_s.
        let dist_step_m = tas_mps * time_to_climb_s in
        ebind (py_div (power_available_elec * time_to_climb_s) total_energy) (\<lambda>q.
        let energy_drain_pct = q * 100 in
        ebind (record_step path1 time_to_climb_s dist_step_m alt_step_ft
                 (climb_ias_mps * 1.94384) energy_drain_pct) (\<lambda>path2.
          Inr (Some path2))))))))))))))"

function climb_loop ::
  "Aircraft \<Rightarrow> real \<Rightarrow> real \<Rightarrow> FlightPath \<Rightarrow> py_error + FlightPath" where
  "climb_loop aircraft wn total_energy path =
     (case climb_continue path of
        Inl err \<Rightarrow> Inl err
      | Inr False \<Rightarrow> Inr path
      | Inr True \<Rightarrow>
          (case climb_step aircraft wn total_energy path of
             Inl err \<Rightarrow> Inl err
           | Inr None \<Rightarrow> Inr path
           | Inr (Some path2) \<Rightarrow> climb_loop aircraft wn total_energy path2))"
  by pat_completeness auto

text \<open>Phase 3, the cruise.\<close>

definition cruise_phase ::
  "Aircraft \<Rightarrow> real \<Rightarrow> real \<Rightarrow> FlightPath \<Rightarrow> py_error + FlightPath" where
  "cruise_phase aircraft wn total_energy path =
     ebind (py_last (battery_pct path)) (\<lambda>bp.
     let usable_cruise_energy_j = ((bp - 10.0) / 100.0) * total_energy in
     if usable_cruise_energy_j > 0 then
       ebind (py_last (alt_ft path)) (\<lambda>alt.
       let cruise_alt_m = alt * 0.3048 in
       ebind (isa_density cruise_alt_m) (\<lambda>rho.
       ebind (py_sqrt (rho / RHO_SL_KGM3)) (\<lambda>root.
       ebind (py_div (cruise_ias_mps aircraft) root) (\<lambda>cruise_tas_mps.
       ebind (py_div wn (ld_ratio aircraft)) (\<lambda>thrust_req_cruise.
       let power_req_prop_cruise = thrust_req_cruise * cruise_tas_mps in
       ebind (get_propulsive_efficiency (edf aircraft) cruise_tas_mps) (\<lambda>eff.
       ebind (py_div power_req_prop_cruise eff) (\<lambda>power_req_elec_cruise.
       ebind (py_div power_req_elec_cruise (power_w (edf aircraft))) (\<lambda>frac.
       let path1 = path\<lparr>cruise_power_pct := frac * 100\<rparr> in
       if power_req_elec_cruise > 0 then
         ebind (py_div usable_cruise_energy_j power_req_elec_cruise) (\<lambda>cruise_time_s.
         let dist_step_m = cruise_tas_mps * cruise_time_s in
         ebind (py_last (battery_pct path1)) (\<lambda>bp1.
         let battery_drain_pct = bp1 - 10.0 in
           record_step path1 cruise_time_s dist_step_m 0 (cruise_ias_kts aircraft)
             battery_drain_pct))
       else Inr path1))))))))
     else Inr path)"

text \<open>Phase 4, the descent, and the summary fields.\<close>

definition descent_phase :: "Aircraft \<Rightarrow> FlightPath \<Rightarrow> py_error + FlightPath" where
  "descent_phase aircraft path =
     (let descent_ias_mps = best_glide_ias_mps aircraft in
      ebind (py_last (alt_ft path)) (\<lambda>descent_alt_ft.
      ebind (py_div 1 (ld_ratio aircraft)) (\<lambda>inv_ld.
      let glide_angle_rad = arctan inv_ld in
      ebind (py_div (descent_alt_ft * 0.3048) (tan glide_angle_rad)) (\<lambda>descent_dist_m.
      let avg_alt_m = (descent_alt_ft / 2) * 0.3048 in
      ebind (isa_density avg_alt_m) (\<lambda>rho.
      ebind (py_div RHO_SL_KGM3 rho) (\<lambda>ratio.
      ebind (py_sqrt ratio) (\<lambda>root.
      let avg_tas_mps = descent_ias_mps * root;
          sink_rate_mps = avg_tas_mps * sin glide_angle_rad
      in
      ebind (if sink_rate_mps > 0 then py_div (descent_alt_ft * 0.3048) sink_rate_mps
             else Inr 0) (\<lambda>descent_time_s.
        record_step path descent_time_s descent_dist_m (- descent_alt_ft)
          (descent_ias_mps * 1.94384) 0))))))))"

definition py_max :: "real list \<Rightarrow> py_error + real" where
  \<comment> \<open>\<open>max(xs)\<close>\<close>
  "py_max xs = (if xs = [] then Inl (ValueError ''max() arg is an empty sequence'')
                else Inr (Max (set xs)))"

definition run_mission_simulation :: "Aircraft \<Rightarrow> py_error + FlightPath" where
  \<comment> \<open>the warning printed when the aircraft cannot take off is not modelled\<close>
  "run_mission_simulation aircraft =
     (let path = FlightPath_init;
          wn = mtow_kg aircraft * G;
          total_energy = total_energy_j (battery aircraft)
      in
      ebind (calculate_takeoff_distance aircraft 0.04) (\<lambda>roll.
      case roll of
        CannotTakeOff \<Rightarrow> Inr path
      | GroundRoll takeoff_dist_m takeoff_time_s \<Rightarrow>
          ebind (py_div (power_w (edf aircraft) * takeoff_time_s) total_energy) (\<lambda>q.
          let takeoff_energy_drain_pct = q * 100 in
          ebind (record_step path takeoff_time_s takeoff_dist_m 0
                   (vr_ias_mps aircraft * 1.94384) takeoff_energy_drain_pct) (\<lambda>path1.
          ebind (climb_loop aircraft wn total_energy path1) (\<lambda>path2.
          ebind (cruise_phase aircraft wn total_energy path2) (\<lambda>path3.
          ebind (descent_phase aircraft path3) (\<lambda>path4.
          ebind (py_last (dist_m path4)) (\<lambda>d.
          ebind (py_last (time_s path4)) (\<lambda>t.
          ebind (py_max (alt_ft path4)) (\<lambda>m.
            Inr (path4\<lparr>total_distance_km := d / 1000,
                       total_time_min := t / 60,
                       max_altitude_ft := m\<rparr>)))))))))))"

section \<open>edf\_uav\_opt\_test.py: the staged objective functions\<close>

text \<open>
  The two catalogs are the module globals \<open>edf_summary\<close> and \<open>battery_summary\<close>, data
  frames that the objective functions read. A data frame is the list of its rows, a row
  the map from the names of its numeric columns to the numbers in them; \<open>iloc\<close> is the
  positional indexer of pandas: a position from \<open>0\<close> to \<open>n - 1\<close> selects that row, a
  negative position from \<open>- n\<close> to \<open>- 1\<close> counts from the end, any other integer raises
  \<open>IndexError\<close> and a float raises \<open>TypeError\<close>. \<open>row_get\<close> is \<open>Series.get\<close> with its
  default. A dictionary that mixes integers and floats (\<open>score_details\<close>,
  \<open>best_edf_config\<close>) is a map to \<open>py_num\<close>. The functions are given the globals and
  return them with their result, so that what they do to the catalogs is part of what
  they return; the result itself is \<open>py_error + _\<close>, \<open>Inl\<close> an exception that leaves the
  call. A fitness is a float that can be \<open>float('inf')\<close>: \<open>PlusInfinity\<close>.

  The attributes of the target variant are strings that the functions convert on the
  way (\<open>convert_weight_to_kg\<close>, \<open>float\<close> after \<open>replace\<close>). The embedding carries, for each
  attribute read, the outcome of its conversion: \<open>Takeoff_Weight_kg\<close> and
  \<open>Payload_Capacity_kg\<close> are what \<open>convert_weight_to_kg(getattr(...))\<close> gives (a number,
  \<open>None\<close>, or the exception of \<open>float\<close>), \<open>Range_km\<close> what
  \<open>float(getattr(...).replace(' km', ''))\<close> gives.
\<close>

type_synonym row = "string \<rightharpoonup> real"
type_synonym dataframe = "row list"

datatype py_num = PyInt int | PyFloat real

datatype cost = Cost real | PlusInfinity

record module_globals =
  edf_summary :: dataframe
  battery_summary :: dataframe

record UAVVariant =
  Payload_Capacity_kg :: "py_error + real option"
  Range_km :: "py_error + real"
  Takeoff_Weight_kg :: "py_error + real option"

definition num_val :: "py_num \<Rightarrow> real" where
  "num_val v = (case v of PyInt i \<Rightarrow> of_int i | PyFloat x \<Rightarrow> x)"

definition iloc :: "dataframe \<Rightarrow> int \<Rightarrow> py_error + row" where
  "iloc df i = (let n = int (length df) in
     if 0 \<le> i \<and> i < n then Inr (df ! nat i)
     else if - n \<le> i \<and> i < 0 then Inr (df ! nat (n + i))
     else Inl IndexError)"

definition iloc_num :: "dataframe \<Rightarrow> py_num \<Rightarrow> py_error + row" where
  "iloc_num df k = (case k of PyInt i \<Rightarrow> iloc df i | PyFloat x \<Rightarrow> Inl TypeError)"

definition row_get :: "row \<Rightarrow> string \<Rightarrow> real \<Rightarrow> real" where
  "row_get r k d = (case r k of None \<Rightarrow> d | Some v \<Rightarrow> v)"

definition dict_getitem :: "(string \<rightharpoonup> py_num) \<Rightarrow> string \<Rightarrow> py_error + py_num" where
  "dict_getitem d k = (case d k of None \<Rightarrow> Inl KeyError | Some v \<Rightarrow> Inr v)"

definition py_index :: "real list \<Rightarrow> nat \<Rightarrow> py_error + real" where
  \<comment> \<open>\<open>optimization_params[k]\<close> for the literal positions 0 and 1\<close>
  "py_index xs k = (if k < length xs then Inr (xs ! k) else Inl IndexError)"

definition py_round :: "real \<Rightarrow> int" where
  \<comment> \<open>\<open>int(round(x))\<close>: the nearest integer, a tie going to the even one\<close>
  "py_round x = (let f = \<lfloor>x\<rfloor>; d = x - of_int f in
     if d < 1 / 2 then f else if 1 / 2 < d then f + 1 else if even f then f else f + 1)"

definition num_engines_map :: "int \<Rightarrow> py_error + int" where
  \<comment> \<open>\<open>{0: 1, 1: 2, 2: 4}[k]\<close>; \<open>num_batteries_map\<close> is the same dictionary\<close>
  "num_engines_map k =
     (if k = 0 then Inr 1 else if k = 1 then Inr 2 else if k = 2 then Inr 4 else Inl KeyError)"

definition edf_fitness_body ::
  "module_globals \<Rightarrow> real list \<Rightarrow> UAVVariant \<Rightarrow> py_error + cost \<times> (string \<rightharpoonup> py_num) option" where
  \<comment> \<open>the \<open>try\<close> block of \<open>edf_fitness_function\<close>\<close>
  "edf_fitness_body gl optimization_params target_variant =
     ebind (py_index optimization_params 0) (\<lambda>p0.
     let edf_index = py_round p0 in
     ebind (py_index optimization_params 1) (\<lambda>p1.
     ebind (num_engines_map (py_round p1)) (\<lambda>num_engines.
     ebind (iloc (edf_summary gl) edf_index) (\<lambda>selected_edf.
     let total_thrust_n = row_get selected_edf ''Thrust (N)'' 0 * of_int num_engines;
         total_power_w = row_get selected_edf ''Power (W)'' 0 * of_int num_engines;
         propulsion_weight_kg = (row_get selected_edf ''Weight_g'' 0 / 1000) * of_int num_engines;
         estimated_battery_weight_kg =
           row_get selected_edf ''Estimated Battery Weight (kg)'' 0 * of_int num_engines
     in
     ebind (Payload_Capacity_kg target_variant) (\<lambda>target_payload_kg.
     ebind (Range_km target_variant) (\<lambda>target_range_km.
     ebind (Takeoff_Weight_kg target_variant) (\<lambda>target_takeoff_weight.
     let estimated_mtow_kg = row_get selected_edf ''Estimated MTOW (kg)'' 0 * of_int num_engines in
     case target_takeoff_weight of
       None \<Rightarrow> Inl TypeError
     | Some target_takeoff_weight_kg \<Rightarrow>
     ebind (py_div \<bar>total_thrust_n - (target_takeoff_weight_kg * 9.81 * 0.5)\<bar>
                   (target_takeoff_weight_kg * 9.81 * 0.5)) (\<lambda>thrust_diff.
     ebind (py_div \<bar>estimated_mtow_kg - target_takeoff_weight_kg\<bar> target_takeoff_weight_kg)
       (\<lambda>weight_diff.
     ebind (if estimated_mtow_kg > 0 then py_div total_thrust_n (estimated_mtow_kg * 9.81)
            else Inr 0) (\<lambda>twr.
     let target_twr = 0.5;
         twr_error = \<bar>twr - target_twr\<bar> / target_twr;
         power_penalty = total_power_w / 10000;
         fitness = thrust_diff + weight_diff + twr_error + power_penalty;
         score_details = [''edf_index'' \<mapsto> PyInt edf_index,
                          ''num_engines'' \<mapsto> PyInt num_engines,
                          ''total_thrust_n'' \<mapsto> PyFloat total_thrust_n,
                          ''total_power_w'' \<mapsto> PyFloat total_power_w,
                          ''estimated_mtow_kg'' \<mapsto> PyFloat estimated_mtow_kg,
                          ''fitness'' \<mapsto> PyFloat fitness]
     in Inr (Cost fitness, Some score_details)))))))))))"

definition edf_fitness_function ::
  "module_globals \<Rightarrow> real list \<Rightarrow> UAVVariant \<Rightarrow>
   (py_error + cost \<times> (string \<rightharpoonup> py_num) option) \<times> module_globals" where
  \<comment> \<open>the two handlers: \<open>except IndexError\<close>, then \<open>except Exception\<close>\<close>
  "edf_fitness_function gl optimization_params target_variant =
     (case edf_fitness_body gl optimization_params target_variant of
        Inr r \<Rightarrow> (Inr r, gl)
      | Inl e \<Rightarrow> if e = IndexError then (Inr (PlusInfinity, None), gl)
                 else (Inr (PlusInfinity, None), gl))"

definition calculate_parasitic_drag_power :: "real \<Rightarrow> real \<Rightarrow> real \<Rightarrow> real \<Rightarrow> real" where
  "calculate_parasitic_drag_power velocity_ms wing_area zero_lift_drag_coefficient density_air_kgm3 =
     (let drag_force_N = 0.5 * density_air_kgm3 * velocity_ms\<^sup>2 * wing_area
                          * zero_lift_drag_coefficient;
          power_W = drag_force_N * velocity_ms
      in power_W)"

definition calculate_flight_power_units ::
  "real \<Rightarrow> real \<Rightarrow> real \<Rightarrow> real \<Rightarrow> real \<Rightarrow> real \<Rightarrow> real \<Rightarrow> py_error + real" where
  "calculate_flight_power_units mass_plane_kg wing_span_m wing_area velocity_flight_ms
       zero_lift_drag_coefficient gravity_ms2 density_air_kgm3 =
     (let lift_force_N = mass_plane_kg * gravity_ms2 in
      ebind (py_div (wing_span_m\<^sup>2) wing_area) (\<lambda>aspect_ratio.
      ebind (py_div lift_force_N (0.5 * density_air_kgm3 * velocity_flight_ms\<^sup>2 * wing_area))
        (\<lambda>cl.
      ebind (py_div (cl\<^sup>2) (3.14159 * aspect_ratio)) (\<lambda>induced_drag_coefficient.
      let induced_drag_force_N = induced_drag_coefficient * 0.5 * density_air_kgm3
                                   * velocity_flight_ms\<^sup>2 * wing_area;
          induced_power_W = induced_drag_force_N * velocity_flight_ms;
          parasitic_power_W = calculate_parasitic_drag_power velocity_flight_ms wing_area
                                zero_lift_drag_coefficient density_air_kgm3;
          total_power_W = induced_power_W + parasitic_power_W
      in Inr total_power_W))))"

definition battery_fitness_body ::
  "module_globals \<Rightarrow> real list \<Rightarrow> (string \<rightharpoonup> py_num) \<Rightarrow> UAVVariant \<Rightarrow> (string \<rightharpoonup> real) \<Rightarrow>
   py_error + cost \<times> (string \<rightharpoonup> py_num) option" where
  \<comment> \<open>the \<open>try\<close> block of \<open>battery_fitness_function\<close>\<close>
  "battery_fitness_body gl optimization_params best_edf_config target_variant uav_geometry =
     ebind (py_index optimization_params 0) (\<lambda>p0.
     let battery_index = py_round p0 in
     ebind (py_index optimization_params 1) (\<lambda>p1.
     ebind (num_engines_map (py_round p1)) (\<lambda>n_batteries.
     ebind (iloc (battery_summary gl) battery_index) (\<lambda>selected_battery.
     ebind (dict_getitem best_edf_config ''edf_index'') (\<lambda>edf_index.
     ebind (dict_getitem best_edf_config ''num_engines'') (\<lambda>num_engines.
     ebind (iloc_num (edf_summary gl) edf_index) (\<lambda>selected_edf.
     let estimated_battery_weight_from_edf =
           row_get selected_edf ''Estimated Battery Weight (kg)'' 0 * num_val num_engines in
     ebind (dict_getitem best_edf_config ''estimated_mtow_kg'') (\<lambda>config_mtow.
     let uav_weight_without_battery = num_val config_mtow - estimated_battery_weight_from_edf;
         battery_weight_kg = (row_get selected_battery ''weight_g'' 0 / 1000) * of_int n_batteries;
         new_mtow = uav_weight_without_battery + battery_weight_kg;
         cruise_speed_ms =
           (case best_edf_config ''estimated_cruise_speed_kmh'' of
              None \<Rightarrow> 90 | Some v \<Rightarrow> num_val v) * 1000 / 3600
     in
     ebind (py_getitem uav_geometry ''wing_span_m'') (\<lambda>span.
     ebind (py_getitem uav_geometry ''wing_area_m2'') (\<lambda>area.
     ebind (py_getitem uav_geometry ''cd0'') (\<lambda>cd0.
     ebind (calculate_flight_power_units new_mtow span area cruise_speed_ms cd0 9.81 1.225)
       (\<lambda>power_required_w.
     let battery_capacity_ah = row_get selected_battery ''capacity_Ah'' 0 * of_int n_batteries;
         battery_voltage = row_get selected_battery ''nominalV'' 0
     in
     if battery_voltage = 0 \<or> power_required_w = 0 then Inr (PlusInfinity, None)
     else
     let battery_energy_wh = battery_capacity_ah * battery_voltage in
     ebind (if power_required_w > 0 then py_div battery_energy_wh power_required_w else Inr 0)
       (\<lambda>endurance_h.
     let range_km = (cruise_speed_ms * 3600 / 1000) * endurance_h in
     ebind (Range_km target_variant) (\<lambda>target_range_km.
     ebind (Takeoff_Weight_kg target_variant) (\<lambda>target_takeoff_weight.
     let min_endurance_h = 10 / 60;
         endurance_penalty = max 0 ((min_endurance_h - endurance_h) / min_endurance_h * 10)
     in
     ebind (if target_range_km > 0
            then ebind (py_div (target_range_km - range_km) target_range_km) (\<lambda>q. Inr (max 0 q))
            else Inr 0) (\<lambda>range_score.
     case target_takeoff_weight of
       None \<Rightarrow> Inl TypeError
     | Some target_takeoff_weight_kg \<Rightarrow>
     ebind (if target_takeoff_weight_kg > 0
            then ebind (py_div (new_mtow - target_takeoff_weight_kg) target_takeoff_weight_kg)
                   (\<lambda>q. Inr (max 0 q))
            else Inr 0) (\<lambda>weight_score.
     let fitness = endurance_penalty + range_score + weight_score;
         score_details = [''battery_index'' \<mapsto> PyInt battery_index,
                          ''num_batteries'' \<mapsto> PyInt n_batteries,
                          ''range_km'' \<mapsto> PyFloat range_km,
                          ''endurance_h'' \<mapsto> PyFloat endurance_h,
                          ''battery_weight_kg'' \<mapsto> PyFloat battery_weight_kg,
                          ''power_required_w'' \<mapsto> PyFloat power_required_w,
                          ''fitness'' \<mapsto> PyFloat fitness]
     in Inr (Cost fitness, Some score_details))))))))))))))))))"

definition battery_fitness_function ::
  "module_globals \<Rightarrow> real list \<Rightarrow> (string \<rightharpoonup> py_num) \<Rightarrow> UAVVariant \<Rightarrow> (string \<rightharpoonup> real) \<Rightarrow>
   (py_error + cost \<times> (string \<rightharpoonup> py_num) option) \<times> module_globals" where
  "battery_fitness_function gl optimization_params best_edf_config target_variant uav_geometry =
     (case battery_fitness_body gl optimization_params best_edf_config target_variant
             uav_geometry of
        Inr r \<Rightarrow> (Inr r, gl)
      | Inl e \<Rightarrow> if e = IndexError then (Inr (PlusInfinity, None), gl)
                 else (Inr (PlusInfinity, None), gl))"

section \<open>Objects used as concrete inputs\<close>

definition FixedWingParameters_init :: "py_error + FixedWingParameters" where
  \<comment> \<open>\<open>FixedWingParameters.__init__\<close>\<close>
  "FixedWingParameters_init =
     ebind (LogScaledParameter_init ''Takeoff Weight'' ''kg'' 5 250) (\<lambda>tw.
     ebind (LogScaledParameter_init ''Cruise Speed'' ''km/h'' 30 600) (\<lambda>cs.
     ebind (LogScaledParameter_init ''Endurance'' ''hours'' (5 / 60) 10) (\<lambda>en.
     ebind (LogScaledParameter_init ''Wingspan'' ''m'' 0.3 3) (\<lambda>ws.
     ebind (LogScaledParameter_init ''Payload Capacity'' ''kg'' 0.2 30) (\<lambda>pc.
       Inr \<lparr>takeoff_weight = tw, cruise_speed = cs, endurance = en, wingspan = ws,
            payload_capacity = pc\<rparr>)))))"

definition takeoff_weight_10_20 :: LogScaledParameter where
  \<comment> \<open>the takeoff weight after \<open>set_range(target_params.takeoff_weight, 10, 20)\<close> of
      \<open>edf_fitness.py\<close>\<close>
  "takeoff_weight_10_20 =
     \<lparr>lsp_name = ''Takeoff Weight'', unit = ''kg'', min_val = 10, max_val = 20, percent = 50\<rparr>"

definition takeoff_weight_default :: LogScaledParameter where
  \<comment> \<open>the takeoff weight of \<open>FixedWingParameters()\<close>\<close>
  "takeoff_weight_default =
     \<lparr>lsp_name = ''Takeoff Weight'', unit = ''kg'', min_val = 5, max_val = 250, percent = 50\<rparr>"

definition single_point_parameter :: LogScaledParameter where
  \<comment> \<open>\<open>LogScaledParameter("Payload Capacity", "kg", 1, 1)\<close>: a scalar target\<close>
  "single_point_parameter =
     \<lparr>lsp_name = ''Payload Capacity'', unit = ''kg'', min_val = 1, max_val = 1, percent = 50\<rparr>"

definition fixed_wing_parameters :: FixedWingParameters where
  \<comment> \<open>the module-level object \<open>fixed_wing_parameters = FixedWingParameters()\<close>: every
      parameter at 50 percent\<close>
  "fixed_wing_parameters =
     \<lparr>takeoff_weight = takeoff_weight_default,
      cruise_speed =
        \<lparr>lsp_name = ''Cruise Speed'', unit = ''km/h'', min_val = 30, max_val = 600, percent = 50\<rparr>,
      endurance =
        \<lparr>lsp_name = ''Endurance'', unit = ''hours'', min_val = 5 / 60, max_val = 10, percent = 50\<rparr>,
      wingspan =
        \<lparr>lsp_name = ''Wingspan'', unit = ''m'', min_val = 0.3, max_val = 3, percent = 50\<rparr>,
      payload_capacity =
        \<lparr>lsp_name = ''Payload Capacity'', unit = ''kg'', min_val = 0.2, max_val = 30,
         percent = 50\<rparr>\<rparr>"

definition weak_battery :: Battery where
  "weak_battery = Battery_init 0.5 10 50 22.2 ''Generic'' 1"

definition edf_8kw :: EDF where
  \<comment> \<open>the EDF that \<open>EDF.from_power(8000)\<close> builds\<close>
  "edf_8kw = EDF_init 8000 (0.7 * 8000 powr 0.88) (0.05 + 0.020 * 8000 powr 0.75) (0.03 * 8000 powr 0.44)"
definition battery_5kg_30c :: Battery where
  "battery_5kg_30c = Battery_init 5 30 1000 22.2 ''Generic'' 1"
definition edf_negative_weight :: EDF where
  \<comment> \<open>\<open>EDF("x", 100, 1, -10, 0.1)\<close>: the constructor checks no argument\<close>
  "edf_negative_weight = EDF_init 100 1 (-10) 0.1"
definition battery_weightless :: Battery where
  "battery_weightless = Battery_init 0 30 100 22.2 ''Generic'' 1"
definition edf_no_thrust :: EDF where
  \<comment> \<open>an 8 kW propulsor of 17 kg that delivers no static thrust\<close>
  "edf_no_thrust = EDF_init 8000 0 17 1.5"

definition edf_catalog_8kw :: EDF where
  \<comment> \<open>\<open>EDF("8kW", 8000, 1900, 17, 1.5)\<close>: an 8 kW fan with a static thrust of 1900 N\<close>
  "edf_catalog_8kw = EDF_init 8000 1900 17 1.5"

definition battery_negative_energy :: Battery where
  \<comment> \<open>\<open>Battery(5, -30, -1000, 22.2)\<close>: the constructor checks no argument, and the
      maximum power \<open>energy_wh * c_rating\<close> is 30000 W\<close>
  "battery_negative_energy = Battery_init 5 (- 30) (- 1000) 22.2 ''Generic'' 1"

definition demo_rules :: "string \<rightharpoonup> real" where
  \<comment> \<open>the \<open>rules\<close> dictionary of the demonstration in \<open>edf_fitness.py\<close>\<close>
  "demo_rules = [''c_rating'' \<mapsto> 50, ''batt_motor_ratio'' \<mapsto> 2.5,
     ''cruise_power_target'' \<mapsto> 70.0]"

definition demo_globals :: module_globals where
  \<comment> \<open>two catalogs of two rows each, with the columns that the objective functions read\<close>
  "demo_globals = \<lparr>
     edf_summary =
       [[''Thrust (N)'' \<mapsto> 5, ''Power (W)'' \<mapsto> 300, ''Weight_g'' \<mapsto> 100,
         ''Estimated Battery Weight (kg)'' \<mapsto> 0.3, ''Estimated MTOW (kg)'' \<mapsto> 1],
        [''Thrust (N)'' \<mapsto> 19.62, ''Power (W)'' \<mapsto> 1000, ''Weight_g'' \<mapsto> 300,
         ''Estimated Battery Weight (kg)'' \<mapsto> 1, ''Estimated MTOW (kg)'' \<mapsto> 4]],
     battery_summary =
       [[''weight_g'' \<mapsto> 500, ''capacity_Ah'' \<mapsto> 5, ''nominalV'' \<mapsto> 22.2],
        [''weight_g'' \<mapsto> 1000, ''capacity_Ah'' \<mapsto> 10, ''nominalV'' \<mapsto> 22.2]] \<rparr>"

definition demo_variant :: UAVVariant where
  \<comment> \<open>a variant with \<open>Payload_Capacity = '1 kg'\<close>, \<open>Range = '50 km'\<close> and
      \<open>Takeoff_Weight = '4 kg'\<close>\<close>
  "demo_variant = \<lparr> Payload_Capacity_kg = Inr (Some 1), Range_km = Inr 50,
                    Takeoff_Weight_kg = Inr (Some 4) \<rparr>"

definition demo_edf_config :: "string \<rightharpoonup> py_num" where
  \<comment> \<open>the \<open>score_details\<close> of the first stage for the second row and one engine\<close>
  "demo_edf_config = [''edf_index'' \<mapsto> PyInt 1, ''num_engines'' \<mapsto> PyInt 1,
     ''total_thrust_n'' \<mapsto> PyFloat 19.62, ''total_power_w'' \<mapsto> PyFloat 1000,
     ''estimated_mtow_kg'' \<mapsto> PyFloat 4, ''fitness'' \<mapsto> PyFloat 0.1]"

definition demo_geometry :: "string \<rightharpoonup> real" where
  \<comment> \<open>the default geometry of the script\<close>
  "demo_geometry = [''wing_span_m'' \<mapsto> 2.0, ''wing_area_m2'' \<mapsto> 0.4, ''cd0'' \<mapsto> 0.035]"

section \<open>Predicates on flight paths used in the statements\<close>

text \<open>
  \<open>sample_added p p2 dt ds da dr\<close>: the path \<open>p2\<close> is \<open>p\<close> with one more sample, as
  \<open>record_step\<close> appends it. \<open>path_ok\<close>: no sequence is empty and the last altitude
  is within the range of the atmosphere model. \<open>path_monotone\<close>: time and distance never
  decrease and the battery percentage never increases along the path. \<open>extends p p'\<close>:
  the sequences of \<open>p\<close> are prefixes of those of \<open>p'\<close>.
\<close>

definition sample_added :: "FlightPath \<Rightarrow> FlightPath \<Rightarrow> real \<Rightarrow> real \<Rightarrow> real \<Rightarrow> real \<Rightarrow> bool" where
  "sample_added p p2 dt ds da dr \<longleftrightarrow>
     time_s p2 = time_s p @ [last (time_s p) + dt]
     \<and> dist_m p2 = dist_m p @ [last (dist_m p) + ds]
     \<and> alt_ft p2 = alt_ft p @ [last (alt_ft p) + da]
     \<and> battery_pct p2 = battery_pct p @ [last (battery_pct p) - dr]"

definition path_ok :: "FlightPath \<Rightarrow> bool" where
  "path_ok p \<longleftrightarrow> time_s p \<noteq> [] \<and> dist_m p \<noteq> [] \<and> alt_ft p \<noteq> [] \<and> battery_pct p \<noteq> []
     \<and> 0 \<le> last (alt_ft p) \<and> last (alt_ft p) \<le> 45250"

definition path_monotone :: "FlightPath \<Rightarrow> bool" where
  "path_monotone p \<longleftrightarrow> sorted (time_s p) \<and> sorted (dist_m p) \<and> sorted_wrt (\<ge>) (battery_pct p)"

definition extends :: "FlightPath \<Rightarrow> FlightPath \<Rightarrow> bool" where
  "extends p p' \<longleftrightarrow> (\<exists>ts ds bs. time_s p' = time_s p @ ts \<and> dist_m p' = dist_m p @ ds
     \<and> battery_pct p' = battery_pct p @ bs)"

section \<open>The outcome of the design iteration, as used in the statements\<close>

text \<open>
  \<open>design_result_ok js i0 r\<close>: the outcome \<open>r\<close> of the loop over the indices \<open>js\<close>, entered
  with the loop variable at \<open>i0\<close>, is either the \<open>ValueError\<close> of the battery check, or
  the locals \<open>(i, mtow_guess_kg, temp_aircraft)\<close> with \<open>i\<close> one of the indices, a positive
  guess, and either the convergence test passed or \<open>i\<close> the last index.
\<close>

definition design_result_ok :: "nat list \<Rightarrow> nat \<Rightarrow> py_error + (nat \<times> real \<times> Aircraft) \<Rightarrow> bool" where
  "design_result_ok js i0 r \<longleftrightarrow>
     (case r of
        Inl err \<Rightarrow> err = ValueError ''Battery cannot supply peak power.''
      | Inr (i, g, ac) \<Rightarrow> i \<in> set (i0 # js) \<and> 0 < g
          \<and> (\<bar>mtow_kg ac - g\<bar> / g < 0.01 \<or> i = last (i0 # js)))"

section \<open>Basic facts\<close>

lemma ebind_Inr [simp]: "ebind (Inr x) f = f x"
  by (simp add: ebind_def)

lemma ebind_Inl [simp]: "ebind (Inl e) f = Inl e"
  by (simp add: ebind_def)

lemma FixedWingParameters_init_eq: "FixedWingParameters_init = Inr fixed_wing_parameters"
  by (simp add: FixedWingParameters_init_def LogScaledParameter_init_def set_percent_def
      fixed_wing_parameters_def takeoff_weight_default_def)

lemma ebind_eq_Inr: "ebind m f = Inr y \<longleftrightarrow> (\<exists>x. m = Inr x \<and> f x = Inr y)"
  by (cases m) simp_all

section \<open>Facts about the construction of an aircraft\<close>

lemma py_div_eq_Inr: "py_div a b = Inr x \<longleftrightarrow> b \<noteq> 0 \<and> x = a / b"
  by (auto simp: py_div_def)

lemma py_sqrt_eq_Inr: "py_sqrt a = Inr x \<longleftrightarrow> 0 \<le> a \<and> x = sqrt a"
  by (auto simp: py_sqrt_def)

lemma ebind_ex:
  assumes "\<exists>x. m = Inr x" "\<And>x. m = Inr x \<Longrightarrow> \<exists>y. f x = Inr y"
  shows "\<exists>y. ebind m f = Inr y"
  using assms by auto

lemma py_div_ex: "b \<noteq> 0 \<Longrightarrow> \<exists>x. py_div a b = Inr x"
  by (simp add: py_div_def)

lemma py_sqrt_ex: "0 \<le> a \<Longrightarrow> \<exists>x. py_sqrt a = Inr x"
  by (simp add: py_sqrt_def)

lemma efficiency_ex: "design_speed_mps e \<noteq> 0 \<Longrightarrow> \<exists>x. get_propulsive_efficiency e t = Inr x"
  by (simp add: get_propulsive_efficiency_def py_div_def)

lemma efficiency_floor: "get_propulsive_efficiency e t = Inr eff \<Longrightarrow> 0.1 \<le> eff"
  by (auto simp: get_propulsive_efficiency_def py_div_def split: if_splits)

lemma cruise_speed_pos:
  assumes "0 \<le> percent (endurance ps)" "percent (endurance ps) \<le> 100"
  shows "0 < estimate_modified_cruise_speed pw ps"
proof -
  define c where "c = np_clip pw 200 20000"
  have c: "200 \<le> c" "c \<le> 20000" unfolding c_def np_clip_def by auto
  have 1: "0 < c powr 0.6246" using c by simp
  have "max 1 (c / 1000) \<le> 100" using c by simp
  then have "log 10 (max 1 (c / 1000)) \<le> log 10 100" by (subst log_le_cancel_iff) auto
  also have "log 10 100 = (2::real)"
  proof -
    have "log 10 (10 powr 2) = (2::real)" by (rule log_powr_cancel) auto
    moreover have "(10::real) powr 2 = 100" by simp
    ultimately show ?thesis by simp
  qed
  finally have 2: "0 < 1 - 0.10 * log 10 (max 1 (c / 1000))" by simp
  have "(percent (endurance ps) / 100) * (1 - 0.35) \<le> 0.65" using assms by simp
  then have 3: "0 < 1 - (percent (endurance ps) / 100) * (1 - 0.35)" by simp
  have "0 < 0.19815 * (c powr 0.6246) * (1 - (percent (endurance ps) / 100) * (1 - 0.35)) * (1 - 0.10 * log 10 (max 1 (c / 1000)))"
    using 1 2 3 by (intro mult_pos_pos) auto
  then show ?thesis unfolding estimate_modified_cruise_speed_def Let_def c_def .
qed

lemma calculate_rate_of_climb_ex:
  assumes "design_speed_mps (edf ac) \<noteq> 0" "ld_ratio ac \<noteq> 0" "weight_n ac \<noteq> 0"
    "best_glide_ias_mps ac > 0 \<longrightarrow> vy_ias_mps ac \<noteq> 0"
  shows "\<exists>roc. calculate_rate_of_climb ac = Inr roc"
  using assms unfolding calculate_rate_of_climb_def Let_def
  by (auto simp: get_propulsive_efficiency_def py_div_def)

lemma stall_arg_nonneg:
  fixes w v :: real
  assumes "w \<noteq> 0" "v \<noteq> 0" "wing = (2 * w) / (1.225 * v\<^sup>2 * 0.4)" 
  shows "0 \<le> (2 * w) / (1.225 * wing * 1.5)" 
proof -
  have eq: "(2 * w) / (1.225 * wing * 1.5) = v\<^sup>2 * 0.4 / 1.5"
    unfolding assms(3) using assms(1,2) by (simp add: field_simps)
  have "0 \<le> v\<^sup>2 * 0.4 / 1.5" by simp
  then show ?thesis unfolding eq .
qed

lemma Aircraft_init_ex:
  assumes chk: "\<not> max_power_w b < power_w e * 1.2"
    and mtow: "edf_weight_kg e + bat_weight_kg b + (0.4 + (edf_weight_kg e + bat_weight_kg b) * 0.8)
               + 0.20 * (power_w e / 100) \<noteq> 0"
    and pct: "0 \<le> percent (endurance ps)" "percent (endurance ps) \<le> 100"
    and ds: "design_speed_mps e \<noteq> 0"
    and pw: "power_w e \<noteq> 0"
  shows "\<exists>ac. Aircraft_init e b ps = Inr ac"
proof -
  define M where "M = edf_weight_kg e + bat_weight_kg b + (0.4 + (edf_weight_kg e + bat_weight_kg b) * 0.8)
               + 0.20 * (power_w e / 100)"
  define W where "W = M * 9.80665"
  define L where "L = 7.0 + (percent (endurance ps) / 100) * 5.0"
  define S where "S = estimate_modified_cruise_speed (power_w e) ps * 0.514444"
  have M: "M \<noteq> 0" using mtow unfolding M_def .
  have W: "W \<noteq> 0" unfolding W_def using M by simp
  have S: "S \<noteq> 0"
    using cruise_speed_pos[OF pct, of "power_w e"] unfolding S_def by simp
  have "0 \<le> (percent (endurance ps) / 100) * 5.0" using pct by simp
  then have L: "L \<noteq> 0" unfolding L_def by linarith
  show ?thesis
    unfolding Aircraft_init_def Let_def
    apply (fold M_def)
    apply (fold W_def)
    apply (fold L_def)
    apply (fold S_def)
    apply (rule ebind_ex)
    subgoal using chk by (simp add: check_power_output_def)
    apply (rule ebind_ex)
    subgoal using W by (intro py_div_ex)
    apply (rule ebind_ex)
    subgoal using S by (intro py_div_ex) simp
    apply (rule ebind_ex)
    subgoal for u twr wing using W S by (intro py_div_ex) (simp add: py_div_eq_Inr)
    apply (rule ebind_ex)
    subgoal for u twr wing q using W S
      by (intro py_sqrt_ex) (auto simp only: py_div_eq_Inr intro: stall_arg_nonneg)
    apply (rule ebind_ex)
    subgoal for u twr wing q stall using W L ds
      by (intro calculate_rate_of_climb_ex) (simp_all add: py_sqrt_eq_Inr)
    apply (rule ebind_ex)
    subgoal using L by (intro py_div_ex)
    apply (rule ebind_ex)
    subgoal using ds by (intro efficiency_ex)
    apply (rule ebind_ex)
    subgoal for u twr wing q stall roc thr eff using efficiency_floor[of e _ eff] by (intro py_div_ex) auto
    apply (rule ebind_ex)
    subgoal using pw by (intro py_div_ex)
    apply simp
    done
qed

lemma Aircraft_init_fields:
  assumes "Aircraft_init e b ps = Inr ac"
  shows "edf ac = e \<and> battery ac = b \<and> params ac = ps
     \<and> airframe_weight_kg ac = 0.4 + (edf_weight_kg e + bat_weight_kg b) * 0.8
     \<and> payload_weight_kg ac = 0.20 * (power_w e / 100)
     \<and> mtow_kg ac = edf_weight_kg e + bat_weight_kg b + airframe_weight_kg ac + payload_weight_kg ac
     \<and> weight_n ac = mtow_kg ac * 9.80665
     \<and> weight_n ac \<noteq> 0
     \<and> ld_ratio ac = 7.0 + (percent (endurance ps) / 100) * 5.0
     \<and> ld_ratio ac \<noteq> 0
     \<and> cruise_ias_kts ac = estimate_modified_cruise_speed (power_w e) ps
     \<and> cruise_ias_mps ac = cruise_ias_kts ac * 0.514444
     \<and> cruise_ias_mps ac \<noteq> 0
     \<and> wing_area_m2 ac = (2 * weight_n ac) / (1.225 * (cruise_ias_mps ac)\<^sup>2 * 0.4)
     \<and> stall_speed_ias_mps ac = sqrt ((2 * weight_n ac) / (1.225 * wing_area_m2 ac * 1.5))
     \<and> vr_ias_mps ac = stall_speed_ias_mps ac * 1.10
     \<and> vy_ias_mps ac = stall_speed_ias_mps ac * 1.20
     \<and> best_glide_ias_mps ac = stall_speed_ias_mps ac * 1.31
     \<and> \<not> max_power_w b < power_w e * 1.2
     \<and> power_w e \<noteq> 0"
  using assms unfolding Aircraft_init_def Let_def ebind_eq_Inr py_div_eq_Inr py_sqrt_eq_Inr
  apply (elim exE conjE)
  apply (simp only: sum.inject)
  apply hypsubst
  apply (simp add: check_power_output_def split: if_splits)
  done

lemma mtow_formula_pos:
  fixes x y pw :: real
  assumes "0 \<le> x + y" "0 \<le> pw"
  shows "0 < x + y + (0.4 + (x + y) * 0.8) + 0.20 * (pw / 100)"
  using assms by (simp add: field_simps)

lemma Aircraft_init_ok:
  assumes "\<not> max_power_w b < power_w e * 1.2"
    and "0 \<le> edf_weight_kg e + bat_weight_kg b" and "0 < power_w e"
    and "0 \<le> percent (endurance ps)" "percent (endurance ps) \<le> 100"
    and "design_speed_mps e \<noteq> 0"
  shows "\<exists>ac. Aircraft_init e b ps = Inr ac"
proof (rule Aircraft_init_ex)
  show "edf_weight_kg e + bat_weight_kg b + (0.4 + (edf_weight_kg e + bat_weight_kg b) * 0.8)
        + 0.20 * (power_w e / 100) \<noteq> 0"
    using mtow_formula_pos[of "edf_weight_kg e" "bat_weight_kg b" "power_w e"] assms(2,3) by simp
qed (use assms in simp_all)

lemma edf_8kw_facts:
  "power_w edf_8kw = 8000" "0 < edf_weight_kg edf_8kw" "design_speed_mps edf_8kw \<noteq> 0"
proof -
  have "0 < 0.05 + 0.020 * (8000::real) powr 0.75"
    by (intro add_pos_nonneg mult_nonneg_nonneg) simp_all
  then show "0 < edf_weight_kg edf_8kw" unfolding edf_8kw_def EDF_init_def by simp
qed (simp_all add: edf_8kw_def EDF_init_def)

lemma battery_5kg_30c_facts:
  "bat_weight_kg battery_5kg_30c = 5" "max_power_w battery_5kg_30c = 30000"
  "total_energy_j battery_5kg_30c = 3600000"
  by (simp_all add: battery_5kg_30c_def Battery_init_def)

lemma from_power_8000: "from_power 8000 = Inr edf_8kw"
  by (simp add: from_power_def py_pow_def edf_8kw_def)

lemma percent_default: "percent (endurance fixed_wing_parameters) = 50"
  by (simp add: fixed_wing_parameters_def)

lemma ex_8kw: "\<exists>ac. Aircraft_init edf_8kw battery_5kg_30c fixed_wing_parameters = Inr ac"
  by (rule Aircraft_init_ok) (use edf_8kw_facts in \<open>simp_all add: battery_5kg_30c_facts percent_default\<close>)

lemma Aircraft_init_positive:
  assumes ac: "Aircraft_init e b ps = Inr ac"
    and w: "0 \<le> edf_weight_kg e + bat_weight_kg b" and p: "0 \<le> power_w e"
    and pct: "0 \<le> percent (endurance ps)" "percent (endurance ps) \<le> 100"
  shows "0 < mtow_kg ac \<and> 0 < weight_n ac \<and> weight_n ac = mtow_kg ac * G
       \<and> 7 \<le> ld_ratio ac \<and> ld_ratio ac \<le> 12
       \<and> 0 < cruise_ias_mps ac \<and> 0 < cruise_ias_kts ac \<and> 0 < wing_area_m2 ac
       \<and> 0 < stall_speed_ias_mps ac \<and> 0 < vr_ias_mps ac \<and> 0 < vy_ias_mps ac
       \<and> 0 < best_glide_ias_mps ac \<and> 0 < power_w (edf ac)
       \<and> vy_ias_mps ac / best_glide_ias_mps ac = 120 / 131"
proof -
  note f = Aircraft_init_fields[OF ac]
  have edf: "edf ac = e" using f by blast
  have pw: "0 < power_w e" using f p by simp
  have m: "0 < mtow_kg ac"
    using mtow_formula_pos[OF w p] f by simp
  have wn: "weight_n ac = mtow_kg ac * G" using f by (simp add: G_def)
  have wn_pos: "0 < weight_n ac" unfolding wn using m by (simp add: G_def)
  have ld: "ld_ratio ac = 7.0 + (percent (endurance ps) / 100) * 5.0" using f by blast
  have ld7: "7 \<le> ld_ratio ac" unfolding ld using pct by simp
  have ld12: "ld_ratio ac \<le> 12" unfolding ld using pct by simp
  have kts: "0 < cruise_ias_kts ac" using f cruise_speed_pos[OF pct, of "power_w e"] by simp
  have mps_eq: "cruise_ias_mps ac = cruise_ias_kts ac * 0.514444" using f by blast
  have mps: "0 < cruise_ias_mps ac" unfolding mps_eq using kts by simp
  have wing_eq: "wing_area_m2 ac = (2 * weight_n ac) / (1.225 * (cruise_ias_mps ac)\<^sup>2 * 0.4)"
    using f by blast
  have wing: "0 < wing_area_m2 ac" unfolding wing_eq using wn_pos mps by simp
  have stall_eq: "stall_speed_ias_mps ac = sqrt ((2 * weight_n ac) / (1.225 * wing_area_m2 ac * 1.5))"
    using f by blast
  have stall: "0 < stall_speed_ias_mps ac" unfolding stall_eq using wn_pos wing by simp
  have vr: "vr_ias_mps ac = stall_speed_ias_mps ac * 1.10"
    and vy: "vy_ias_mps ac = stall_speed_ias_mps ac * 1.20"
    and bg: "best_glide_ias_mps ac = stall_speed_ias_mps ac * 1.31" using f by blast+
  have "0 < vr_ias_mps ac" "0 < vy_ias_mps ac" "0 < best_glide_ias_mps ac"
    unfolding vr vy bg using stall by simp_all
  moreover have "vy_ias_mps ac / best_glide_ias_mps ac = 120 / 131"
    unfolding vy bg using stall by simp
  ultimately show ?thesis using m wn wn_pos ld7 ld12 kts mps wing stall pw edf by simp
qed

lemma edf_no_thrust_facts:
  "power_w edf_no_thrust = 8000" "edf_weight_kg edf_no_thrust = 17"
  "design_speed_mps edf_no_thrust \<noteq> 0" "static_thrust_n edf_no_thrust = 0"
  by (simp_all add: edf_no_thrust_def EDF_init_def)

section \<open>The battery power check (C5)\<close>

text \<open>
  C5. \<open>check_power_output\<close> raises exactly when the battery's \<open>max_power_w\<close> is
  strictly less than 1.2 times the required power and returns normally otherwise, and
  \<open>Aircraft.__init__\<close> runs this check first: when it fails, the construction raises
  that error whatever the other fields of the propulsor, the battery and the mission
  are, so no derived field is computed before it.
\<close>

theorem check_power_output_threshold:
  "(check_power_output b r = Inl (ValueError ''Battery cannot supply peak power.'')
      \<longleftrightarrow> max_power_w b < 1.2 * r)
   \<and> (check_power_output b r = Inr () \<longleftrightarrow> 1.2 * r \<le> max_power_w b)
   \<and> (max_power_w b < 1.2 * power_w e \<longrightarrow>
        Aircraft_init e b ps = Inl (ValueError ''Battery cannot supply peak power.''))"
proof -
  have chk: "check_power_output b x = Inl (ValueError ''Battery cannot supply peak power.'')"
    if "max_power_w b < 1.2 * x" for x
    using that by (simp add: check_power_output_def mult.commute)
  have 1: "check_power_output b r = Inl (ValueError ''Battery cannot supply peak power.'')
             \<longleftrightarrow> max_power_w b < 1.2 * r"
    by (auto simp: check_power_output_def mult.commute)
  have 2: "check_power_output b r = Inr () \<longleftrightarrow> 1.2 * r \<le> max_power_w b"
    by (auto simp: check_power_output_def mult.commute)
  have 3: "Aircraft_init e b ps = Inl (ValueError ''Battery cannot supply peak power.'')"
    if "max_power_w b < 1.2 * power_w e"
    unfolding Aircraft_init_def by (simp only: chk[OF that] ebind_Inl)
  show ?thesis using 1 2 3 by blast
qed

theorem check_power_output_threshold_witness:
  "max_power_w weak_battery < 1.2 * power_w (EDF_init 8000 1900 17 1.5)
   \<and> Aircraft_init (EDF_init 8000 1900 17 1.5) weak_battery fixed_wing_parameters
       = Inl (ValueError ''Battery cannot supply peak power.'')"
proof -
  have h: "max_power_w weak_battery < 1.2 * power_w (EDF_init 8000 1900 17 1.5)"
    by (simp add: weak_battery_def Battery_init_def EDF_init_def)
  show ?thesis
    using h check_power_output_threshold
            [of weak_battery 0 "EDF_init 8000 1900 17 1.5" fixed_wing_parameters]
    by blast
qed

section \<open>The score of a ranged parameter (C1, C6)\<close>

lemma score_inside:
  assumes "min_val p < max_val p" "min_val p \<le> x" "x \<le> max_val p"
  shows "score p x
         = Inr (1 - \<bar>x - (min_val p + max_val p) / 2\<bar> / ((max_val p - min_val p) / 2))"
proof -
  let ?c = "(min_val p + max_val p) / 2" and ?h = "(max_val p - min_val p) / 2"
  have h: "?h > 0" using assms by simp
  have "\<bar>x - ?c\<bar> \<le> ?h" using assms by (simp add: abs_le_iff field_simps)
  then have "\<bar>x - ?c\<bar> / ?h \<le> 1" using h by (simp add: divide_le_eq)
  then show ?thesis using assms h by (simp add: score_def Let_def max_def py_div_def)
qed

lemma score_outside:
  assumes "0 < min_val p" "min_val p < max_val p" "a < min_val p \<or> max_val p < a"
  shows "score p a = Inr (if a < min_val p then a / min_val p else max_val p / a)
         \<and> (\<forall>s. score p a = Inr s \<longrightarrow> s < 1 \<and> (0 \<le> s \<longleftrightarrow> 0 \<le> a))"
proof (cases "a < min_val p")
  case True
  then have "score p a = Inr (a / min_val p)"
    using assms by (simp add: score_def py_div_def)
  moreover have "a / min_val p < 1" using True assms by simp
  moreover have "0 \<le> a / min_val p \<longleftrightarrow> 0 \<le> a"
    using assms by (simp add: zero_le_divide_iff)
  ultimately show ?thesis using True by simp
next
  case False
  then have gt: "max_val p < a" using assms by simp
  then have pos: "0 < a" using assms by linarith
  have "score p a = Inr (max_val p / a)"
    using gt assms pos by (simp add: score_def py_div_def)
  moreover have "max_val p / a < 1" using gt pos by simp
  moreover have "0 \<le> max_val p / a" using assms pos by simp
  ultimately show ?thesis using False pos by simp
qed

text \<open>
  C1. Outside the range the score is the ratio of the actual value to the violated
  boundary, below 1 and never an error (\<open>score_outside\<close>); it is not always
  non-negative. On the default takeoff-weight range \<open>[5, 250]\<close> the actual value \<open>-1\<close>
  lies below the range and is scored \<open>-1/5\<close>: the branch for values below the range
  returns the bare ratio, where the branch for a single-point range returns \<open>0\<close> for
  every non-positive actual value and the branch inside the range clamps at \<open>0\<close>.
\<close>

theorem score_negative_below_range:
  "min_val takeoff_weight_default = 5 \<and> max_val takeoff_weight_default = 250
   \<and> score takeoff_weight_default (- 1) = Inr (- (1 / 5))"
  by (simp add: score_def py_div_def takeoff_weight_default_def)



section \<open>The log-scale round trip (C3)\<close>




section \<open>The propulsive efficiency of an EDF (C10)\<close>



section \<open>The weight build-up of an aircraft (C9)\<close>




section \<open>A mission that cannot take off (C7)\<close>

lemma takeoff_cannot:
  assumes "ld_ratio ac \<noteq> 0"
    and "static_thrust_n (edf ac)
         - 0.5 * RHO_SL_KGM3 * ((vr_ias_mps ac * 0.7)\<^sup>2) * (wing_area_m2 ac / ld_ratio ac)
         - mu * weight_n ac \<le> 0"
  shows "calculate_takeoff_distance ac mu = Inr CannotTakeOff"
  unfolding calculate_takeoff_distance_def Let_def
  by (simp only: py_div_def assms if_False if_True ebind_Inr)



section \<open>The phases of a mission (C4)\<close>

lemma py_last_eq_Inr: "py_last xs = Inr x \<longleftrightarrow> xs \<noteq> [] \<and> x = last xs"
  by (auto simp: py_last_def)

lemma record_step_eq:
  assumes "time_s p \<noteq> []" "dist_m p \<noteq> []" "alt_ft p \<noteq> []" "battery_pct p \<noteq> []"
  shows "record_step p dt ds da ias dr =
     Inr (p\<lparr>time_s := time_s p @ [last (time_s p) + dt],
            dist_m := dist_m p @ [last (dist_m p) + ds],
            alt_ft := alt_ft p @ [last (alt_ft p) + da],
            ias_kts := ias_kts p @ [ias],
            battery_pct := battery_pct p @ [last (battery_pct p) - dr]\<rparr>)"
  using assms by (simp add: record_step_def py_last_def)

lemma isa_density_pos:
  assumes "0 \<le> alt_m" "alt_m \<le> 14000"
  shows "\<exists>rho. isa_density alt_m = Inr rho \<and> 0 < rho"
proof -
  have b: "0 < 1 - 0.0065 * alt_m / 288.15" using assms by (simp add: field_simps)
  have t: "0 < 288.15 - 0.0065 * alt_m" using assms by (simp add: field_simps)
  have "0 < (1 - 0.0065 * alt_m / 288.15) powr 5.256" using b by simp
  then have "0 < 101325 * (1 - 0.0065 * alt_m / 288.15) powr 5.256 / (287.05 * (288.15 - 0.0065 * alt_m))"
    using t by simp
  moreover have "isa_density alt_m = Inr (101325 * (1 - 0.0065 * alt_m / 288.15) powr 5.256 / (287.05 * (288.15 - 0.0065 * alt_m)))"
    unfolding isa_density_def Let_def py_pow_def py_div_def using b t by simp
  ultimately show ?thesis by blast
qed

lemma ebind_exQ: "m = Inr x \<Longrightarrow> (\<exists>r. f x = Inr r \<and> Q r) \<Longrightarrow> \<exists>r. ebind m f = Inr r \<and> Q r"
  by simp

lemma if_exQ:
  "(c \<Longrightarrow> \<exists>r. a = Inr r \<and> Q r) \<Longrightarrow> (\<not> c \<Longrightarrow> \<exists>r. b = Inr r \<and> Q r)
   \<Longrightarrow> \<exists>r. (if c then a else b) = Inr r \<and> Q r"
  by simp

lemma py_div_nz: "b \<noteq> 0 \<Longrightarrow> py_div a b = Inr (a / b)"
  by (simp add: py_div_def)

lemma py_sqrt_nn: "0 \<le> a \<Longrightarrow> py_sqrt a = Inr (sqrt a)"
  by (simp add: py_sqrt_def)

lemma py_last_ne: "xs \<noteq> [] \<Longrightarrow> py_last xs = Inr (last xs)"
  by (simp add: py_last_def)

lemma efficiency_eq:
  "design_speed_mps e \<noteq> 0 \<Longrightarrow>
   get_propulsive_efficiency e t
   = Inr (max 0.1 (0.70 * exp (- ((t / design_speed_mps e - 1)\<^sup>2) / 0.8)))"
  by (simp add: get_propulsive_efficiency_def py_div_def)

lemma record_step_sample:
  assumes "time_s p \<noteq> []" "dist_m p \<noteq> []" "alt_ft p \<noteq> []" "battery_pct p \<noteq> []"
  shows "\<exists>p2. record_step p dt ds da ias dr = Inr p2 \<and> sample_added p p2 dt ds da dr"
  using assms by (simp add: record_step_eq sample_added_def)

lemma climb_signs:
  fixes x wn :: real
  assumes "\<not> x \<le> 0" "0 < rho" "0 \<le> c" "0 \<le> r" "0 < k"
  shows "0 < wn \<and> 0 \<le> vy \<and> 0 \<le> P \<and> 0 < E \<longrightarrow>
     0 \<le> c / (x / wn) \<and> 0 \<le> vy * r * (c / (x / wn)) \<and> 0 \<le> P * (rho / k) * (c / (x / wn)) / E * 100"
  using assms by (auto intro!: mult_nonneg_nonneg divide_nonneg_nonneg)

lemma climb_final:
  assumes ne: "time_s p \<noteq> []" "dist_m p \<noteq> []" "alt_ft p \<noteq> []" "battery_pct p \<noteq> []"
    and s: "S \<longrightarrow> 0 \<le> dt \<and> 0 \<le> ds \<and> 0 \<le> dr"
  shows "\<exists>r. ebind (record_step (if c then p\<lparr>climb_rate_fpm := x\<rparr> else p) dt ds da ias dr)
               (\<lambda>path2. Inr (Some path2)) = Inr r
     \<and> (case r of None \<Rightarrow> True
         | Some p2 \<Rightarrow> \<exists>dt ds dr. sample_added p p2 dt ds da dr \<and> (S \<longrightarrow> 0 \<le> dt \<and> 0 \<le> ds \<and> 0 \<le> dr))"
proof -
  let ?p1 = "if c then p\<lparr>climb_rate_fpm := x\<rparr> else p"
  have l: "time_s ?p1 = time_s p" "dist_m ?p1 = dist_m p" "alt_ft ?p1 = alt_ft p"
    "battery_pct ?p1 = battery_pct p" by simp_all
  obtain p2 where p2: "record_step ?p1 dt ds da ias dr = Inr p2" "sample_added ?p1 p2 dt ds da dr"
    using record_step_sample[of ?p1] ne unfolding l by blast
  have "sample_added p p2 dt ds da dr" using p2(2) unfolding sample_added_def l .
  then show ?thesis using p2(1) s by auto
qed

lemma climb_step_ok:
  assumes ne: "time_s p \<noteq> []" "dist_m p \<noteq> []" "alt_ft p \<noteq> []" "battery_pct p \<noteq> []"
    and alt: "0 \<le> last (alt_ft p)" "last (alt_ft p) < 45000"
    and nz: "ld_ratio ac \<noteq> 0" "best_glide_ias_mps ac \<noteq> 0" "vy_ias_mps ac \<noteq> 0" "wn \<noteq> 0"
      "E \<noteq> 0" "design_speed_mps (edf ac) \<noteq> 0"
  shows "\<exists>r. climb_step ac wn E p = Inr r
       \<and> (case r of None \<Rightarrow> True
           | Some p2 \<Rightarrow> \<exists>dt ds dr. sample_added p p2 dt ds 250.0 dr
               \<and> (0 < wn \<and> 0 \<le> vy_ias_mps ac \<and> 0 \<le> power_w (edf ac) \<and> 0 < E
                    \<longrightarrow> 0 \<le> dt \<and> 0 \<le> ds \<and> 0 \<le> dr))"
proof -
  have "0 \<le> last (alt_ft p) * 0.3048" "last (alt_ft p) * 0.3048 \<le> 14000" using alt by simp_all
  then obtain rho where rho: "isa_density (last (alt_ft p) * 0.3048) = Inr rho" "0 < rho"
    using isa_density_pos by blast
  have root: "0 < sqrt (RHO_SL_KGM3 / rho)" using rho by (simp add: RHO_SL_KGM3_def)
  show ?thesis
    unfolding climb_step_def Let_def
    apply (rule ebind_exQ[OF py_last_ne[OF ne(3)]])
    apply (rule ebind_exQ[OF rho(1)])
    apply (rule ebind_exQ[OF py_div_nz])
    subgoal using rho by simp
    apply (rule ebind_exQ[OF py_sqrt_nn])
    subgoal using rho by (simp add: RHO_SL_KGM3_def)
    apply (rule ebind_exQ[OF py_div_nz])
    subgoal by (rule nz)
    apply (rule ebind_exQ[OF py_div_nz])
    subgoal using nz rho(2) by (simp add: RHO_SL_KGM3_def)
    apply (rule ebind_exQ[OF py_div_nz])
    subgoal using nz rho(2) by (simp add: RHO_SL_KGM3_def)
    apply (rule ebind_exQ[OF efficiency_eq])
    subgoal by (rule nz)
    apply (rule if_exQ)
    subgoal by simp
    apply (rule ebind_exQ[OF py_div_nz])
    subgoal by (rule nz)
    apply (rule ebind_exQ[OF py_div_nz])
    subgoal using nz by simp
    apply (rule ebind_exQ[OF py_div_nz])
    subgoal by (rule nz)
    apply (rule climb_final[OF ne])
    apply (rule climb_signs)
    subgoal by assumption
    subgoal by (rule rho(2))
    subgoal premises prems by simp
    subgoal premises prems by (rule less_imp_le[OF root])
    subgoal premises prems by (simp add: RHO_SL_KGM3_def)
    done
qed

lemma ebind_InrE:
  assumes "ebind m f = Inr y"
  obtains x where "m = Inr x" "f x = Inr y"
  using assms by (cases m) simp_all

lemma if_None_SomeE:
  assumes "(if c then Inr None else b) = Inr (Some y)"
  obtains "\<not> c" "b = Inr (Some y)"
  using assms by (cases c) simp_all

lemma record_step_alt:
  assumes "record_step p1 dt ds da ias dr = Inr p2"
  shows "last (alt_ft p2) = last (alt_ft p1) + da"
  using assms unfolding record_step_def
  by (elim ebind_InrE) (auto simp: py_last_def split: if_splits)

lemma climb_step_alt:
  assumes "climb_step ac wn E p = Inr (Some p2)"
  shows "last (alt_ft p2) = last (alt_ft p) + 250"
proof -
  have l: "alt_ft (if c then p\<lparr>climb_rate_fpm := x\<rparr> else p) = alt_ft p" for c x by simp
  from assms show ?thesis
    unfolding climb_step_def Let_def
    apply (elim ebind_InrE if_None_SomeE)
    apply (drule record_step_alt)
    apply (simp only: l sum.inject option.inject)
    done
qed

lemma climb_continue_True:
  assumes "climb_continue p = Inr True"
  shows "last (alt_ft p) < 45000"
  using assms unfolding climb_continue_def
  by (elim ebind_InrE) (auto simp: py_last_def split: if_splits)

lemma climb_measure:
  fixes a :: real
  assumes "a < 45000"
  shows "nat \<lceil>(45000 - (a + 250)) / 250\<rceil> < nat \<lceil>(45000 - a) / 250\<rceil>"
proof -
  define x where "x = (45000 - a) / 250"
  have eq: "(45000 - (a + 250)) / 250 = x - 1" unfolding x_def by (simp add: field_simps)
  have "0 < x" unfolding x_def using assms by simp
  then have "0 < \<lceil>x\<rceil>" by (simp add: less_ceiling_iff)
  then have "nat (\<lceil>x\<rceil> - 1) < nat \<lceil>x\<rceil>" by simp
  then show ?thesis unfolding eq x_def[symmetric] by (simp only: ceiling_diff_one)
qed

termination climb_loop
  apply (relation "measure (\<lambda>(ac, wn, E, p). nat \<lceil>(45000 - last (alt_ft p)) / 250\<rceil>)")
   apply simp
  apply (simp only: in_measure prod.case)
  apply (drule climb_continue_True)
  apply (drule climb_step_alt)
  apply (simp only: climb_measure)
  done

lemma extends_refl: "extends p p"
  by (simp add: extends_def)

lemma extends_trans: "extends p q \<Longrightarrow> extends q r \<Longrightarrow> extends p r"
  by (auto simp: extends_def)

lemma sorted_le_last:
  fixes xs :: "real list"
  assumes "sorted xs" "a \<in> set xs"
  shows "a \<le> last xs"
  using assms by (induction xs) (auto split: if_splits)

lemma sorted_wrt_ge_last:
  fixes xs :: "real list"
  assumes "sorted_wrt (\<ge>) xs" "a \<in> set xs"
  shows "last xs \<le> a"
  using assms by (induction xs) (auto split: if_splits)

lemma sorted_snoc_last:
  fixes xs :: "real list"
  assumes "sorted xs" "0 \<le> d"
  shows "sorted (xs @ [last xs + d])"
  using assms sorted_le_last[OF assms(1)] by (fastforce simp: sorted_append)

lemma sorted_wrt_ge_snoc_last:
  fixes xs :: "real list"
  assumes "sorted_wrt (\<ge>) xs" "0 \<le> d"
  shows "sorted_wrt (\<ge>) (xs @ [last xs - d])"
  using assms sorted_wrt_ge_last[OF assms(1)] by (fastforce simp: sorted_wrt_append)

lemma sample_added_ok:
  assumes "path_ok p" "sample_added p p2 dt ds da dr"
    "0 \<le> last (alt_ft p) + da" "last (alt_ft p) + da \<le> 45250"
  shows "path_ok p2 \<and> extends p p2"
  using assms unfolding path_ok_def sample_added_def extends_def by simp

lemma sample_added_monotone:
  assumes "path_monotone p" "sample_added p p2 dt ds da dr" "0 \<le> dt" "0 \<le> ds" "0 \<le> dr"
  shows "path_monotone p2"
  using assms unfolding path_monotone_def sample_added_def
  by (simp add: sorted_snoc_last sorted_wrt_ge_snoc_last)

lemma climb_continue_eq:
  assumes "path_ok p"
  shows "climb_continue p = Inr (75 < last (battery_pct p) \<and> last (alt_ft p) < 45000)"
  using assms unfolding climb_continue_def path_ok_def by (simp add: py_last_def)

lemma climb_loop_ok:
  "ld_ratio ac \<noteq> 0 \<Longrightarrow> best_glide_ias_mps ac \<noteq> 0 \<Longrightarrow> vy_ias_mps ac \<noteq> 0 \<Longrightarrow> wn \<noteq> 0 \<Longrightarrow>
   E \<noteq> 0 \<Longrightarrow> design_speed_mps (edf ac) \<noteq> 0 \<Longrightarrow> path_ok p \<Longrightarrow>
   \<exists>p'. climb_loop ac wn E p = Inr p' \<and> path_ok p' \<and> extends p p'
       \<and> (0 < wn \<and> 0 \<le> vy_ias_mps ac \<and> 0 \<le> power_w (edf ac) \<and> 0 < E \<and> path_monotone p
            \<longrightarrow> path_monotone p')"
proof (induction ac wn E p rule: climb_loop.induct)
  case (1 ac wn E p)
  note nz = "1.prems"(1-6) and ok = "1.prems"(7)
  note cont = climb_continue_eq[OF ok]
  have ne: "time_s p \<noteq> []" "dist_m p \<noteq> []" "alt_ft p \<noteq> []" "battery_pct p \<noteq> []"
    and alt0: "0 \<le> last (alt_ft p)"
    using ok unfolding path_ok_def by simp_all
  show ?case
  proof (cases "75 < last (battery_pct p) \<and> last (alt_ft p) < 45000")
    case False
    then have contF: "climb_continue p = Inr False" using cont by simp
    have "climb_loop ac wn E p = Inr p"
      by (subst climb_loop.simps) (simp add: contF)
    then show ?thesis using ok extends_refl by auto
  next
    case True
    then have alt: "last (alt_ft p) < 45000" by simp
    have contT: "climb_continue p = Inr True" using cont True by simp
    obtain r where r: "climb_step ac wn E p = Inr r"
      and Q: "case r of None \<Rightarrow> True
           | Some p2 \<Rightarrow> \<exists>dt ds dr. sample_added p p2 dt ds 250.0 dr
               \<and> (0 < wn \<and> 0 \<le> vy_ias_mps ac \<and> 0 \<le> power_w (edf ac) \<and> 0 < E
                    \<longrightarrow> 0 \<le> dt \<and> 0 \<le> ds \<and> 0 \<le> dr)"
      using climb_step_ok[OF ne alt0 alt nz] by blast
    show ?thesis
    proof (cases r)
      case None
      then have "climb_loop ac wn E p = Inr p"
        by (subst climb_loop.simps) (simp add: contT r)
      then show ?thesis using ok extends_refl by auto
    next
      case (Some p2)
      obtain dt ds dr where sa: "sample_added p p2 dt ds 250.0 dr"
        and sg: "0 < wn \<and> 0 \<le> vy_ias_mps ac \<and> 0 \<le> power_w (edf ac) \<and> 0 < E
                    \<longrightarrow> 0 \<le> dt \<and> 0 \<le> ds \<and> 0 \<le> dr"
        using Q Some by auto
      have ok2: "path_ok p2" and ex2: "extends p p2"
        using sample_added_ok[OF ok sa] alt alt0 by simp_all
      have r2: "climb_step ac wn E p = Inr (Some p2)" using r Some by simp
      obtain p' where p': "climb_loop ac wn E p2 = Inr p'" "path_ok p'" "extends p2 p'"
        and m': "0 < wn \<and> 0 \<le> vy_ias_mps ac \<and> 0 \<le> power_w (edf ac) \<and> 0 < E \<and> path_monotone p2
            \<longrightarrow> path_monotone p'"
        using "1.IH"[OF contT refl r2 refl nz ok2] by blast
      have eq: "climb_loop ac wn E p = climb_loop ac wn E p2"
        by (subst climb_loop.simps) (simp add: contT r2)
      have "path_monotone p'"
        if "0 < wn \<and> 0 \<le> vy_ias_mps ac \<and> 0 \<le> power_w (edf ac) \<and> 0 < E \<and> path_monotone p"
      proof -
        have "path_monotone p2" using sample_added_monotone[OF _ sa] sg that by blast
        then show ?thesis using m' that by blast
      qed
      then show ?thesis using eq p' ex2 extends_trans by metis
    qed
  qed
qed

lemma phase_final:
  assumes ok: "path_ok q" and l: "time_s q = time_s p" "dist_m q = dist_m p" "alt_ft q = alt_ft p" "battery_pct q = battery_pct p"
    and a: "0 \<le> last (alt_ft p) + da" "last (alt_ft p) + da \<le> 45250"
    and s: "S \<longrightarrow> 0 \<le> dt \<and> 0 \<le> ds \<and> 0 \<le> dr"
  shows "\<exists>r. record_step q dt ds da ias dr = Inr r
     \<and> (path_ok r \<and> extends p r \<and> (S \<and> path_monotone p \<longrightarrow> path_monotone r))"
proof -
  have ne: "time_s q \<noteq> []" "dist_m q \<noteq> []" "alt_ft q \<noteq> []" "battery_pct q \<noteq> []"
    using ok unfolding path_ok_def by simp_all
  obtain r where r: "record_step q dt ds da ias dr = Inr r" "sample_added q r dt ds da dr"
    using record_step_sample[OF ne] by blast
  have okr: "path_ok r \<and> extends q r" using sample_added_ok[OF ok r(2)] a l by simp
  have ex: "extends p r" using okr l unfolding extends_def by simp
  have "path_monotone r" if "S \<and> path_monotone p"
  proof -
    have "path_monotone q" using that l unfolding path_monotone_def by simp
    then show ?thesis using sample_added_monotone[OF _ r(2)] s that by blast
  qed
  then show ?thesis using r okr ex by blast
qed

lemma phase_same:
  assumes "path_ok p" "time_s q = time_s p" "dist_m q = dist_m p" "alt_ft q = alt_ft p" "battery_pct q = battery_pct p"
  shows "\<exists>r. Inr q = (Inr r :: py_error + FlightPath)
     \<and> (path_ok r \<and> extends p r \<and> (S \<and> path_monotone p \<longrightarrow> path_monotone r))"
  using assms by (simp add: path_ok_def extends_def path_monotone_def)

lemma cruise_signs:
  fixes bp E pe r c :: real
  assumes "0 < ((bp - 10.0) / 100.0) * E" "0 < pe" "0 \<le> r"
  shows "0 < E \<and> 0 \<le> c \<longrightarrow>
     0 \<le> ((bp - 10.0) / 100.0) * E / pe \<and> 0 \<le> c / r * (((bp - 10.0) / 100.0) * E / pe) \<and> 0 \<le> bp - 10.0"
proof (intro impI conjI)
  assume h: "0 < E \<and> 0 \<le> c"
  show u: "0 \<le> ((bp - 10.0) / 100.0) * E / pe"
    by (rule divide_nonneg_nonneg) (use assms(1,2) in \<open>simp_all only: less_imp_le\<close>)
  have "0 \<le> c / r" using h assms(3) by simp
  then show "0 \<le> c / r * (((bp - 10.0) / 100.0) * E / pe)"
    using u by (rule mult_nonneg_nonneg)
  have "0 < (bp - 10.0) / 100.0" using assms(1) h by (simp add: zero_less_mult_iff)
  then show "0 \<le> bp - 10.0" by simp
qed

lemma gt_nz: "(0::real) < x \<Longrightarrow> x \<noteq> 0"
  by simp

lemma max_floor_nz: "max (0.1::real) x \<noteq> 0"
  by (simp add: max_def)

lemma cruise_phase_ok:
  assumes ok: "path_ok p"
    and nz: "ld_ratio ac \<noteq> 0" "design_speed_mps (edf ac) \<noteq> 0" "power_w (edf ac) \<noteq> 0"
  shows "\<exists>p'. cruise_phase ac wn E p = Inr p' \<and> (path_ok p' \<and> extends p p'
       \<and> ((0 < E \<and> 0 \<le> cruise_ias_mps ac) \<and> path_monotone p \<longrightarrow> path_monotone p'))"
proof -
  have ne: "time_s p \<noteq> []" "dist_m p \<noteq> []" "alt_ft p \<noteq> []" "battery_pct p \<noteq> []"
    and alt: "0 \<le> last (alt_ft p)" "last (alt_ft p) \<le> 45250"
    using ok unfolding path_ok_def by simp_all
  have "0 \<le> last (alt_ft p) * 0.3048" "last (alt_ft p) * 0.3048 \<le> 14000" using alt by simp_all
  then obtain rho where rho: "isa_density (last (alt_ft p) * 0.3048) = Inr rho" "0 < rho"
    using isa_density_pos by blast
  have root: "0 < sqrt (rho / RHO_SL_KGM3)" using rho by (simp add: RHO_SL_KGM3_def)
  have root_nz: "sqrt (rho / RHO_SL_KGM3) \<noteq> 0" using rho by (simp add: RHO_SL_KGM3_def)
  have rr: "0 \<le> rho / RHO_SL_KGM3" using rho by (simp add: RHO_SL_KGM3_def)
  have lastq: "py_last (battery_pct (p\<lparr>cruise_power_pct := x\<rparr>)) = Inr (last (battery_pct p))" for x
    using ne by (simp add: py_last_def)
  show ?thesis
    unfolding cruise_phase_def Let_def
    apply (rule ebind_exQ[OF py_last_ne[OF ne(4)]])
    apply (rule if_exQ)
     prefer 2
    subgoal by (rule phase_same[OF ok]) simp_all
    apply (rule ebind_exQ[OF py_last_ne[OF ne(3)]])
    apply (rule ebind_exQ[OF rho(1)])
    apply (rule ebind_exQ[OF py_sqrt_nn])
    subgoal premises prems by (rule rr)
    apply (rule ebind_exQ[OF py_div_nz])
    subgoal premises prems by (rule root_nz)
    apply (rule ebind_exQ[OF py_div_nz])
    subgoal premises prems by (rule nz)
    apply (rule ebind_exQ[OF efficiency_eq])
    subgoal premises prems by (rule nz)
    apply (rule ebind_exQ[OF py_div_nz])
    subgoal premises prems by (rule max_floor_nz)
    apply (rule ebind_exQ[OF py_div_nz])
    subgoal premises prems by (rule nz)
    apply (rule if_exQ)
     prefer 2
    subgoal by (rule phase_same[OF ok]) simp_all
    apply (rule ebind_exQ[OF py_div_nz])
    subgoal by (erule gt_nz)
    apply (rule ebind_exQ[OF lastq])
    apply (rule phase_final)
           apply (simp add: ok path_ok_def)
    using ok apply (simp add: path_ok_def)
          apply simp
         apply simp
        apply simp
       apply simp
    using alt apply simp
    using alt apply simp
    apply (rule cruise_signs)
      apply assumption
     apply assumption
    apply (rule less_imp_le[OF root])
    done
qed

lemma if_div_eq:
  "(if 0 < s then py_div a s else Inr 0) = Inr (if 0 < s then a / s else 0)"
  by (simp add: py_div_def)

lemma descent_signs:
  fixes a ld s :: real
  assumes "0 \<le> a"
  shows "0 < ld \<longrightarrow> 0 \<le> (if 0 < s then a / s else 0) \<and> 0 \<le> a / tan (arctan (1 / ld)) \<and> (0::real) \<le> 0"
  using assms by (simp add: tan_arctan)

lemma descent_phase_ok:
  assumes ok: "path_ok p" and nz: "ld_ratio ac \<noteq> 0"
  shows "\<exists>p'. descent_phase ac p = Inr p' \<and> (path_ok p' \<and> extends p p'
       \<and> (0 < ld_ratio ac \<and> path_monotone p \<longrightarrow> path_monotone p'))"
proof -
  have ne: "time_s p \<noteq> []" "dist_m p \<noteq> []" "alt_ft p \<noteq> []" "battery_pct p \<noteq> []"
    and alt: "0 \<le> last (alt_ft p)" "last (alt_ft p) \<le> 45250"
    using ok unfolding path_ok_def by simp_all
  have "0 \<le> last (alt_ft p) / 2 * 0.3048" "last (alt_ft p) / 2 * 0.3048 \<le> 14000" using alt by simp_all
  then obtain rho where rho: "isa_density (last (alt_ft p) / 2 * 0.3048) = Inr rho" "0 < rho"
    using isa_density_pos by blast
  have rho_nz: "rho \<noteq> 0" using rho by simp
  have rr: "0 \<le> RHO_SL_KGM3 / rho" using rho by (simp add: RHO_SL_KGM3_def)
  have tn: "tan (arctan (1 / ld_ratio ac)) \<noteq> 0" using nz by (simp add: tan_arctan)
  have a0: "0 \<le> last (alt_ft p) * 0.3048" using alt by simp
  show ?thesis
    unfolding descent_phase_def Let_def
    apply (rule ebind_exQ[OF py_last_ne[OF ne(3)]])
    apply (rule ebind_exQ[OF py_div_nz[OF nz]])
    apply (rule ebind_exQ[OF py_div_nz[OF tn]])
    apply (rule ebind_exQ[OF rho(1)])
    apply (rule ebind_exQ[OF py_div_nz[OF rho_nz]])
    apply (rule ebind_exQ[OF py_sqrt_nn[OF rr]])
    apply (rule ebind_exQ[OF if_div_eq])
    apply (rule phase_final[OF ok refl refl refl refl])
    using alt apply simp
    using alt apply simp
    apply (rule descent_signs[OF a0])
    done
qed

lemma takeoff_roll_ok:
  assumes ld: "ld_ratio ac \<noteq> 0" and m: "0 < mtow_kg ac" and v: "0 < vr_ias_mps ac"
    and net: "0 < static_thrust_n (edf ac)
         - 0.5 * RHO_SL_KGM3 * ((vr_ias_mps ac * 0.7)\<^sup>2) * (wing_area_m2 ac / ld_ratio ac)
         - mu * weight_n ac"
  shows "\<exists>d t. calculate_takeoff_distance ac mu = Inr (GroundRoll d t) \<and> 0 \<le> d \<and> 0 < t"
proof -
  define n where "n = static_thrust_n (edf ac)
         - 0.5 * RHO_SL_KGM3 * ((vr_ias_mps ac * 0.7)\<^sup>2) * (wing_area_m2 ac / ld_ratio ac)
         - mu * weight_n ac"
  have n: "0 < n" "\<not> n \<le> 0" using net unfolding n_def by simp_all
  have acc: "0 < n / mtow_kg ac" using n m by simp
  have "calculate_takeoff_distance ac mu
        = Inr (GroundRoll ((vr_ias_mps ac)\<^sup>2 / (2 * (n / mtow_kg ac))) (vr_ias_mps ac / (n / mtow_kg ac)))"
    unfolding calculate_takeoff_distance_def Let_def
    apply (simp only: py_div_nz[OF ld] ebind_Inr)
    apply (fold n_def)
    using n m acc by (simp add: py_div_def)
  moreover have "0 \<le> (vr_ias_mps ac)\<^sup>2 / (2 * (n / mtow_kg ac))"
    by (rule divide_nonneg_nonneg) (use acc in simp_all)
  moreover have "0 < vr_ias_mps ac / (n / mtow_kg ac)"
    by (rule divide_pos_pos[OF v acc])
  ultimately show ?thesis by blast
qed

lemma py_max_ne: "xs \<noteq> [] \<Longrightarrow> py_max xs = Inr (Max (set xs))"
  by (simp add: py_max_def)

lemma run_mission_ok:
  assumes pos: "0 < mtow_kg ac" "0 < ld_ratio ac" "0 < vr_ias_mps ac" "0 < vy_ias_mps ac"
      "0 < best_glide_ias_mps ac" "0 < cruise_ias_mps ac" "0 < power_w (edf ac)"
      "design_speed_mps (edf ac) \<noteq> 0"
    and E: "total_energy_j (battery ac) \<noteq> 0"
    and net: "0 < static_thrust_n (edf ac)
         - 0.5 * RHO_SL_KGM3 * ((vr_ias_mps ac * 0.7)\<^sup>2) * (wing_area_m2 ac / ld_ratio ac)
         - 0.04 * weight_n ac"
  shows "\<exists>path t bs. run_mission_simulation ac = Inr path \<and> 0 < t
     \<and> battery_pct path
         = [100, 100 - power_w (edf ac) * t / total_energy_j (battery ac) * 100] @ bs
     \<and> (0 < total_energy_j (battery ac) \<longrightarrow> path_monotone path)"
proof -
  have ld: "ld_ratio ac \<noteq> 0" using pos by simp
  obtain d t where roll: "calculate_takeoff_distance ac 0.04 = Inr (GroundRoll d t)"
    and d: "0 \<le> d" and t: "0 < t"
    using takeoff_roll_ok[OF ld pos(1) pos(3) net] by blast
  let ?E = "total_energy_j (battery ac)"
  let ?dr = "power_w (edf ac) * t / ?E * 100"
  let ?wn = "mtow_kg ac * G"
  have wn: "0 < ?wn" using pos by (simp add: G_def)
  define p1 where "p1 = FlightPath_init\<lparr>time_s := time_s FlightPath_init @ [last (time_s FlightPath_init) + t],
            dist_m := dist_m FlightPath_init @ [last (dist_m FlightPath_init) + d],
            alt_ft := alt_ft FlightPath_init @ [last (alt_ft FlightPath_init) + 0],
            ias_kts := ias_kts FlightPath_init @ [vr_ias_mps ac * 1.94384],
            battery_pct := battery_pct FlightPath_init @ [last (battery_pct FlightPath_init) - ?dr]\<rparr>"
  have r1: "record_step FlightPath_init t d 0 (vr_ias_mps ac * 1.94384) ?dr = Inr p1"
    unfolding p1_def by (rule record_step_eq) (simp_all add: FlightPath_init_def)
  have l1: "time_s p1 = [0, t]" "dist_m p1 = [0, d]" "alt_ft p1 = [1, 1]"
    "battery_pct p1 = [100, 100 - ?dr]"
    unfolding p1_def by (simp_all add: FlightPath_init_def)
  have ok1: "path_ok p1" unfolding path_ok_def l1 by simp
  have m1: "path_monotone p1" if "0 < ?E"
  proof -
    have "0 \<le> ?dr" using that pos(7) t by simp
    then show ?thesis unfolding path_monotone_def l1 using d t by simp
  qed
  obtain p2 where p2: "climb_loop ac ?wn ?E p1 = Inr p2" "path_ok p2" "extends p1 p2"
    and m2: "0 < ?wn \<and> 0 \<le> vy_ias_mps ac \<and> 0 \<le> power_w (edf ac) \<and> 0 < ?E \<and> path_monotone p1
            \<longrightarrow> path_monotone p2"
    using climb_loop_ok[of ac ?wn ?E p1] ld pos wn E ok1 by force
  obtain p3 where p3: "cruise_phase ac ?wn ?E p2 = Inr p3" "path_ok p3" "extends p2 p3"
    and m3: "(0 < ?E \<and> 0 \<le> cruise_ias_mps ac) \<and> path_monotone p2 \<longrightarrow> path_monotone p3"
    using cruise_phase_ok[OF p2(2) ld pos(8), of ?wn ?E] pos(7) by force
  obtain p4 where p4: "descent_phase ac p3 = Inr p4" "path_ok p4" "extends p3 p4"
    and m4: "0 < ld_ratio ac \<and> path_monotone p3 \<longrightarrow> path_monotone p4"
    using descent_phase_ok[OF p3(2) ld] by blast
  have ne4: "time_s p4 \<noteq> []" "dist_m p4 \<noteq> []" "alt_ft p4 \<noteq> []"
    using p4(2) unfolding path_ok_def by simp_all
  have run: "\<exists>r. run_mission_simulation ac = Inr r
       \<and> (time_s r = time_s p4 \<and> dist_m r = dist_m p4 \<and> battery_pct r = battery_pct p4)"
    unfolding run_mission_simulation_def Let_def
    apply (rule ebind_exQ[OF roll])
    apply (simp only: takeoff_roll.case)
    apply (rule ebind_exQ[OF py_div_nz[OF E]])
    apply (rule ebind_exQ[OF r1])
    apply (rule ebind_exQ[OF p2(1)])
    apply (rule ebind_exQ[OF p3(1)])
    apply (rule ebind_exQ[OF p4(1)])
    apply (rule ebind_exQ[OF py_last_ne[OF ne4(2)]])
    apply (rule ebind_exQ[OF py_last_ne[OF ne4(1)]])
    apply (rule ebind_exQ[OF py_max_ne[OF ne4(3)]])
    apply simp
    done
  then obtain r where r: "run_mission_simulation ac = Inr r"
    "time_s r = time_s p4" "dist_m r = dist_m p4" "battery_pct r = battery_pct p4" by blast
  have "extends p1 p4" using p2(3) p3(3) p4(3) extends_trans by blast
  then obtain bs where bs: "battery_pct p4 = battery_pct p1 @ bs" unfolding extends_def by blast
  have mono: "0 < ?E \<longrightarrow> path_monotone r"
  proof
    assume "0 < ?E"
    then have "path_monotone p4" using m1 m2 m3 m4 wn pos by simp
    then show "path_monotone r" unfolding path_monotone_def r by simp
  qed
  have b: "battery_pct r = [100, 100 - ?dr] @ bs" unfolding r(4) bs l1 by simp
  show ?thesis
    by (rule exI[of _ r], rule exI[of _ t], rule exI[of _ bs]) (use r(1) t b mono in blast)
qed

lemma efficiency_defined: "get_propulsive_efficiency e t = Inr x \<Longrightarrow> design_speed_mps e \<noteq> 0"
  by (auto simp: get_propulsive_efficiency_def py_div_def split: if_splits)

lemma Aircraft_init_design_speed:
  assumes "Aircraft_init e b ps = Inr ac"
  shows "design_speed_mps e \<noteq> 0"
  using assms unfolding Aircraft_init_def Let_def
  apply (elim ebind_InrE)
  apply (erule efficiency_defined)
  done

lemma takeoff_drag_le:
  assumes ac: "Aircraft_init e b ps = Inr ac"
    and w: "0 \<le> edf_weight_kg e + bat_weight_kg b" and p: "0 \<le> power_w e"
    and pct: "0 \<le> percent (endurance ps)" "percent (endurance ps) \<le> 100"
  shows "0.5 * RHO_SL_KGM3 * ((vr_ias_mps ac * 0.7)\<^sup>2) * (wing_area_m2 ac / ld_ratio ac) \<le> weight_n ac"
proof -
  note f = Aircraft_init_fields[OF ac]
  note pos = Aircraft_init_positive[OF ac w p pct]
  have wn: "0 < weight_n ac" and wing: "0 < wing_area_m2 ac" and ld: "7 \<le> ld_ratio ac"
    using pos by simp_all
  have stall: "stall_speed_ias_mps ac = sqrt ((2 * weight_n ac) / (1.225 * wing_area_m2 ac * 1.5))"
    and vr: "vr_ias_mps ac = stall_speed_ias_mps ac * 1.10" using f by blast+
  have "0 \<le> (2 * weight_n ac) / (1.225 * wing_area_m2 ac * 1.5)" using wn wing by simp
  then have sq: "(stall_speed_ias_mps ac)\<^sup>2 = (2 * weight_n ac) / (1.225 * wing_area_m2 ac * 1.5)"
    unfolding stall by simp
  have "0.5 * RHO_SL_KGM3 * ((vr_ias_mps ac * 0.7)\<^sup>2) * (wing_area_m2 ac / ld_ratio ac)
        = 0.5929 * weight_n ac / (1.5 * ld_ratio ac)"
    unfolding vr power_mult_distrib sq RHO_SL_KGM3_def using wing ld
    by (simp add: field_simps power2_eq_square)
  also have "\<dots> \<le> weight_n ac"
  proof -
    have "0.5929 * weight_n ac \<le> weight_n ac * (1.5 * ld_ratio ac)"
      using wn ld by (simp add: field_simps)
    then show ?thesis using ld by (simp add: pos_divide_le_eq)
  qed
  finally show ?thesis .
qed

lemma edf_catalog_8kw_facts:
  "power_w edf_catalog_8kw = 8000" "edf_weight_kg edf_catalog_8kw = 17"
  "static_thrust_n edf_catalog_8kw = 1900" "design_speed_mps edf_catalog_8kw \<noteq> 0"
  by (simp_all add: edf_catalog_8kw_def EDF_init_def)

lemma battery_negative_energy_facts:
  "bat_weight_kg battery_negative_energy = 5" "max_power_w battery_negative_energy = 30000"
  "total_energy_j battery_negative_energy = - 3600000"
  by (simp_all add: battery_negative_energy_def Battery_init_def)

lemma catalog_8kw_takes_off:
  assumes ac: "Aircraft_init edf_catalog_8kw b fixed_wing_parameters = Inr ac"
    and b: "bat_weight_kg b = 5"
  shows "0 < static_thrust_n (edf ac)
         - 0.5 * RHO_SL_KGM3 * ((vr_ias_mps ac * 0.7)\<^sup>2) * (wing_area_m2 ac / ld_ratio ac)
         - 0.04 * weight_n ac"
proof -
  note f = Aircraft_init_fields[OF ac]
  have drag: "0.5 * RHO_SL_KGM3 * ((vr_ias_mps ac * 0.7)\<^sup>2) * (wing_area_m2 ac / ld_ratio ac)
        \<le> weight_n ac"
    by (rule takeoff_drag_le[OF ac]) (simp_all add: edf_catalog_8kw_facts b percent_default)
  have "mtow_kg ac = 56" using f by (simp add: edf_catalog_8kw_facts b)
  then have wn: "weight_n ac = 56 * 9.80665" using f by simp
  have thr: "static_thrust_n (edf ac) = 1900" using f by (simp add: edf_catalog_8kw_facts)
  have "weight_n ac + 0.04 * weight_n ac < 1900" unfolding wn by simp
  then show ?thesis using drag unfolding thr by linarith
qed




section \<open>The design iteration (C2)\<close>

text \<open>
  The loop of \<open>design_from_mission\<close> is followed step by step: with a positive guess, a
  positive cruise power target, an endurance percentage in its range and a battery of
  non-negative weight, every division, power and square root of one iteration is
  defined, the propulsor sized has a positive power, weight and design speed, and the
  only exception that \<open>Aircraft\<close> can raise is the one of the battery check. The next
  guess is the mean of two positive weights.
\<close>

lemma design_result_ok_Cons:
  "design_result_ok js j r \<Longrightarrow> design_result_ok (j # js) i0 r"
  by (auto simp: design_result_ok_def split: sum.splits)

lemma ebind_R: "m = Inr x \<Longrightarrow> R (f x) \<Longrightarrow> R (ebind m f)"
  by simp

lemma ebind_R_cases:
  "(\<And>err. m = Inl err \<Longrightarrow> R (Inl err)) \<Longrightarrow> (\<And>x. m = Inr x \<Longrightarrow> R (f x)) \<Longrightarrow> R (ebind m f)"
  by (cases m) simp_all

lemma if_R: "(c \<Longrightarrow> R a) \<Longrightarrow> (\<not> c \<Longrightarrow> R b) \<Longrightarrow> R (if c then a else b)"
  by simp

lemma from_power_eq:
  "0 \<le> pw \<Longrightarrow> from_power pw
     = Inr (EDF_init pw (0.7 * pw powr 0.88) (0.05 + 0.020 * pw powr 0.75) (0.03 * pw powr 0.44))"
  by (simp add: from_power_def py_pow_def)

lemma from_power_facts:
  assumes "from_power pw = Inr e" "0 < pw"
  shows "power_w e = pw" "0 < edf_weight_kg e" "design_speed_mps e \<noteq> 0"
proof -
  have e: "e = EDF_init pw (0.7 * pw powr 0.88) (0.05 + 0.020 * pw powr 0.75) (0.03 * pw powr 0.44)"
    using assms from_power_eq[of pw] by simp
  show "power_w e = pw" unfolding e EDF_init_def by simp
  have "0 < 0.05 + 0.020 * pw powr 0.75"
    by (intro add_pos_nonneg mult_nonneg_nonneg) simp_all
  then show "0 < edf_weight_kg e" unfolding e EDF_init_def by simp
  show "design_speed_mps e \<noteq> 0" unfolding e EDF_init_def using assms(2) by simp
qed

lemma Aircraft_init_total:
  assumes "0 \<le> edf_weight_kg e + bat_weight_kg b" and "0 < power_w e"
    and "0 \<le> percent (endurance ps)" "percent (endurance ps) \<le> 100"
    and "design_speed_mps e \<noteq> 0"
  shows "Aircraft_init e b ps = Inl (ValueError ''Battery cannot supply peak power.'')
       \<or> (\<exists>ac. Aircraft_init e b ps = Inr ac)"
proof (cases "max_power_w b < power_w e * 1.2")
  case True
  then have "check_power_output b (power_w e) = Inl (ValueError ''Battery cannot supply peak power.'')"
    by (simp add: check_power_output_def)
  then have "Aircraft_init e b ps = Inl (ValueError ''Battery cannot supply peak power.'')"
    unfolding Aircraft_init_def by (simp only: ebind_Inl)
  then show ?thesis by simp
next
  case False
  then show ?thesis using Aircraft_init_ok[OF False assms] by simp
qed

lemma py_getitem_eq: "d k = Some v \<Longrightarrow> py_getitem d k = Inr v"
  by (simp add: py_getitem_def)

lemma design_loop_ok:
  assumes t: "rules ''cruise_power_target'' = Some target" "0 < target"
    and pct: "0 \<le> percent (endurance ps)" "percent (endurance ps) \<le> 100"
    and bw: "0 \<le> bat_weight_kg b" and mps: "0 < mps" and eff: "0 < eff"
  shows "0 < g \<Longrightarrow> js \<noteq> [] \<or> temp \<noteq> None \<Longrightarrow>
         design_result_ok js i0 (design_loop js i0 ps rules b mps eff g temp)"
proof (induction js arbitrary: i0 g temp)
  case Nil
  then obtain ac where "temp = Some ac" by auto
  then show ?case using Nil by (simp add: design_result_ok_def)
next
  case (Cons j js)
  have g: "0 < g" by (rule Cons.prems(1))
  have "0 \<le> (percent (endurance ps) / 100) * 5.0" using pct by simp
  then have ld: "0 < 7.0 + (percent (endurance ps) / 100) * 5.0" by linarith
  define P where "P = g * 9.80665 / (7.0 + percent (endurance ps) / 100 * 5.0) * mps / eff / (target / 100)"
  have P: "0 < P" unfolding P_def using g ld mps eff t(2)
    by (intro divide_pos_pos mult_pos_pos) simp_all
  define e where "e = EDF_init P (0.7 * P powr 0.88) (0.05 + 0.020 * P powr 0.75) (0.03 * P powr 0.44)"
  have fe: "from_power P = Inr e" unfolding e_def using P by (intro from_power_eq) simp
  note ef = from_power_facts[OF fe P]
  have w: "0 \<le> edf_weight_kg e + bat_weight_kg b" using ef(2) bw by simp
  have pw: "0 < power_w e" using ef(1) P by simp
  note tot = Aircraft_init_total[OF w pw pct ef(3)]
  have gi: "py_getitem rules ''cruise_power_target'' = Inr target"
    using t(1) by (simp add: py_getitem_def)
  have gnz: "g \<noteq> 0" using g by simp
  show ?case
    apply (subst design_loop.simps)
    unfolding Let_def
    apply (rule ebind_R[OF py_div_nz])
    subgoal using ld by simp
    apply (rule ebind_R[OF py_div_nz])
    subgoal using eff by simp
    apply (rule ebind_R[OF gi])
    apply (rule ebind_R[OF py_div_nz])
    subgoal using t(2) by simp
    apply (fold P_def)
    apply (rule ebind_R[OF fe])
    apply (rule ebind_R_cases)
    subgoal for err using tot by (auto simp: design_result_ok_def)
    subgoal premises prems for ac
    proof -
      have m: "0 < mtow_kg ac"
        using Aircraft_init_positive[OF prems w less_imp_le[OF pw] pct] by blast
      have g2: "0 < g * 0.5 + mtow_kg ac * 0.5" using g m by simp
      show ?thesis
        apply (rule ebind_R[OF py_div_nz[OF gnz]])
        apply (rule if_R)
        subgoal using g by (simp add: design_result_ok_def)
        apply (rule design_result_ok_Cons)
        apply (rule Cons.IH[OF g2])
        apply simp
        done
    qed
    done
qed

lemma design_from_mission_locals_ok:
  assumes t: "rules ''cruise_power_target'' = Some target" "0 < target"
    and g: "0 < g0"
    and pct: "0 \<le> percent (endurance ps)" "percent (endurance ps) \<le> 100"
    and bw: "0 \<le> bat_weight_kg b"
  shows "design_result_ok [0..<15] 0 (design_from_mission_locals ps rules g0 b)"
proof -
  define N where "N = g0 * (if target > 80 then 220 else 150)"
  have N: "0 < N" unfolding N_def using g by simp
  define e where "e = EDF_init N (0.7 * N powr 0.88) (0.05 + 0.020 * N powr 0.75) (0.03 * N powr 0.44)"
  have fe: "from_power N = Inr e" unfolding e_def using N by (intro from_power_eq) simp
  note ef = from_power_facts[OF fe N]
  have gi: "py_getitem rules ''cruise_power_target'' = Inr target"
    using t(1) by (simp add: py_getitem_def)
  have mps: "0 < estimate_modified_cruise_speed N ps * 0.514444"
    using cruise_speed_pos[OF pct, of N] by simp
  show ?thesis
    unfolding design_from_mission_locals_def Let_def
    apply (rule ebind_R[OF gi])
    apply (fold N_def)
    apply (rule ebind_R[OF fe])
    apply (rule ebind_R[OF efficiency_eq[OF ef(3)]])
    apply (rule design_loop_ok[where rules = rules and target = target, OF t pct bw mps _ g])
     apply (simp add: max_def)
    apply simp
    done
qed




section \<open>The objective functions of the staged search (C8)\<close>

text \<open>
  Both objective functions catch every exception of their \<open>try\<close> block, so no exception
  leaves them, and they only read the catalogs. A rounded index at or above the number
  of rows, or below its negation, makes \<open>iloc\<close> raise \<open>IndexError\<close>, and the cost is
  \<open>float('inf')\<close>. A negative index from \<open>- n\<close> to \<open>- 1\<close> is outside the bounds
  \<open>[0, n - 1]\<close> of the search, but \<open>iloc\<close> counts it from the end of the catalog and the
  candidate is scored as that row.
\<close>

lemma py_round_int: "py_round (of_int k) = k"
  by (simp add: py_round_def)

lemma py_round_m1: "py_round (- 1) = - 1"
  using py_round_int[of "- 1"] by simp

lemma py_round_0: "py_round 0 = 0"
  using py_round_int[of 0] by simp

lemma edf_m1: "edf_fitness_body demo_globals [- 1, 0] demo_variant =
   Inr (Cost 0.1, Some [''edf_index'' \<mapsto> PyInt (- 1), ''num_engines'' \<mapsto> PyInt 1,
     ''total_thrust_n'' \<mapsto> PyFloat 19.62, ''total_power_w'' \<mapsto> PyFloat 1000,
     ''estimated_mtow_kg'' \<mapsto> PyFloat 4, ''fitness'' \<mapsto> PyFloat 0.1])"
  by (simp add: edf_fitness_body_def py_index_def py_round_m1 py_round_0 num_engines_map_def
      iloc_def demo_globals_def demo_variant_def row_get_def py_div_def Let_def)

lemma edf_never_raises: "\<exists>r. edf_fitness_function gl ps tv = (Inr r, gl)"
  by (simp add: edf_fitness_function_def split: sum.splits)

lemma battery_never_raises: "\<exists>r. battery_fitness_function gl ps cfg tv geo = (Inr r, gl)"
  by (simp add: battery_fitness_function_def split: sum.splits)

lemma iloc_out: "int (length df) \<le> i \<or> i < - int (length df) \<Longrightarrow> iloc df i = Inl IndexError"
  by (auto simp: iloc_def Let_def)

lemma edf_body_out:
  assumes "int (length (edf_summary gl)) \<le> py_round (ps ! 0)
           \<or> py_round (ps ! 0) < - int (length (edf_summary gl))"
  shows "\<exists>e. edf_fitness_body gl ps tv = Inl e"
proof (cases "py_index ps 0")
  case (Inl e) then show ?thesis by (simp add: edf_fitness_body_def)
next
  case p0: (Inr p0)
  then have p0': "p0 = ps ! 0" by (simp add: py_index_def split: if_splits)
  show ?thesis
  proof (cases "py_index ps 1")
    case (Inl e) then show ?thesis using p0 by (simp add: edf_fitness_body_def)
  next
    case p1: (Inr p1)
    show ?thesis
    proof (cases "num_engines_map (py_round p1)")
      case (Inl e) then show ?thesis using p0 p1 by (simp add: edf_fitness_body_def)
    next
      case (Inr n)
      then show ?thesis using p0 p1 iloc_out[OF assms] p0'
        by (simp add: edf_fitness_body_def)
    qed
  qed
qed


lemma battery_body_out:
  assumes "int (length (battery_summary gl)) \<le> py_round (ps ! 0)
           \<or> py_round (ps ! 0) < - int (length (battery_summary gl))"
  shows "\<exists>e. battery_fitness_body gl ps cfg tv geo = Inl e"
proof (cases "py_index ps 0")
  case (Inl e) then show ?thesis by (simp add: battery_fitness_body_def)
next
  case p0: (Inr p0)
  then have p0': "p0 = ps ! 0" by (simp add: py_index_def split: if_splits)
  show ?thesis
  proof (cases "py_index ps 1")
    case (Inl e) then show ?thesis using p0 by (simp add: battery_fitness_body_def)
  next
    case p1: (Inr p1)
    show ?thesis
    proof (cases "num_engines_map (py_round p1)")
      case (Inl e) then show ?thesis using p0 p1 by (simp add: battery_fitness_body_def)
    next
      case (Inr n)
      then show ?thesis using p0 p1 iloc_out[OF assms] p0'
        by (simp add: battery_fitness_body_def)
    qed
  qed
qed

lemma power_demo:
  "calculate_flight_power_units 4 2 (2 / 5) 25 (7 / 200) (981 / 100) (49 / 40)
     = Inr (139885419137 / 985202624)"
  by (simp add: calculate_flight_power_units_def calculate_parasitic_drag_power_def py_div_def
      Let_def power2_eq_square)

lemma battery_m1:
  "battery_fitness_body demo_globals [- 1, 0] demo_edf_config demo_variant demo_geometry
     = Inr (Cost 0, Some [''battery_index'' \<mapsto> PyInt (- 1), ''num_batteries'' \<mapsto> PyInt 1,
         ''range_km'' \<mapsto> PyFloat (19684348427520 / 139885419137),
         ''endurance_h'' \<mapsto> PyFloat (218714982528 / 139885419137),
         ''battery_weight_kg'' \<mapsto> PyFloat 1,
         ''power_required_w'' \<mapsto> PyFloat (139885419137 / 985202624),
         ''fitness'' \<mapsto> PyFloat 0])"
  by (simp add: battery_fitness_body_def py_index_def py_round_m1 py_round_0 num_engines_map_def
      iloc_def iloc_num_def demo_globals_def demo_variant_def demo_edf_config_def
      demo_geometry_def dict_getitem_def py_getitem_def num_val_def row_get_def power_demo
      py_div_def Let_def)

lemma edf_fitness_function_out_of_bounds:
  assumes "int (length (edf_summary gl)) \<le> py_round (ps ! 0)
           \<or> py_round (ps ! 0) < - int (length (edf_summary gl))"
  shows "edf_fitness_function gl ps tv = (Inr (PlusInfinity, None), gl)"
  using edf_body_out[OF assms, of tv] by (auto simp: edf_fitness_function_def)

lemma battery_fitness_function_out_of_bounds:
  assumes "int (length (battery_summary gl)) \<le> py_round (ps ! 0)
           \<or> py_round (ps ! 0) < - int (length (battery_summary gl))"
  shows "battery_fitness_function gl ps cfg tv geo = (Inr (PlusInfinity, None), gl)"
  using battery_body_out[OF assms, of cfg tv geo] by (auto simp: battery_fitness_function_def)

text \<open>
  C8, at the parameter vector \<open>[-1.0, 0.0]\<close>: the rounded catalog index is \<open>-1\<close>, outside
  the rows \<open>0\<close> and \<open>1\<close> of the two-row catalogs, and both objective functions return a
  finite cost with the score details of the last row (0.1 for the propulsor, 0 for the
  battery), where the claim says that they return \<open>+infinity\<close>. No exception leaves the
  call and the catalogs are returned as they were.
\<close>

theorem fitness_finite_at_negative_index:
  "py_round ([- 1, 0] ! 0) = - 1
   \<and> length (edf_summary demo_globals) = 2 \<and> length (battery_summary demo_globals) = 2
   \<and> edf_fitness_function demo_globals [- 1, 0] demo_variant =
       (Inr (Cost 0.1,
          Some [''edf_index'' \<mapsto> PyInt (- 1), ''num_engines'' \<mapsto> PyInt 1,
            ''total_thrust_n'' \<mapsto> PyFloat 19.62, ''total_power_w'' \<mapsto> PyFloat 1000,
            ''estimated_mtow_kg'' \<mapsto> PyFloat 4, ''fitness'' \<mapsto> PyFloat 0.1]),
        demo_globals)
   \<and> battery_fitness_function demo_globals [- 1, 0] demo_edf_config demo_variant demo_geometry =
       (Inr (Cost 0,
          Some [''battery_index'' \<mapsto> PyInt (- 1), ''num_batteries'' \<mapsto> PyInt 1,
            ''range_km'' \<mapsto> PyFloat (19684348427520 / 139885419137),
            ''endurance_h'' \<mapsto> PyFloat (218714982528 / 139885419137),
            ''battery_weight_kg'' \<mapsto> PyFloat 1,
            ''power_required_w'' \<mapsto> PyFloat (139885419137 / 985202624),
            ''fitness'' \<mapsto> PyFloat 0]),
        demo_globals)"
proof -
  have "py_round ([- 1, 0] ! 0) = - 1" by (simp add: py_round_m1)
  moreover have "length (edf_summary demo_globals) = 2" "length (battery_summary demo_globals) = 2"
    by (simp_all add: demo_globals_def)
  ultimately show ?thesis
    by (simp only: edf_fitness_function_def battery_fitness_function_def edf_m1 battery_m1
        sum.case simp_thms)
qed

end
